theory Spec2Isabelle
  imports Complex_Main
begin

section \<open>Errors\<close>

text \<open>
  Every exception that \<^verbatim>\<open>expressions.py\<close> raises is a value: the Python exception class
  with its message.
\<close>

datatype error =
    ExpressionException string
  | TypeError string
  | TremoloException string
  | ValueError string
  | AttributeError string
  | IndexError
  | OverflowError string
  | ZeroDivisionError

text \<open>Sequencing of computations that may raise: the first error ends the computation.\<close>

definition bindE :: "error + 'a \<Rightarrow> ('a \<Rightarrow> error + 'b) \<Rightarrow> error + 'b" where
  "bindE m f = (case m of Inl e \<Rightarrow> Inl e | Inr x \<Rightarrow> f x)"

section \<open>Collaborators: pitch, accidental, interval, key signature\<close>

text \<open>
  Modelled from the spec: the pitch, accidental, interval and key-signature primitives live
  in the modules \<^verbatim>\<open>pitch\<close>, \<^verbatim>\<open>interval\<close> and \<^verbatim>\<open>key\<close>, which are not part of the
  sources at hand. They are modelled at the boundary that the spec describes: a pitch is a
  step, an octave and an optional accidental; an accidental is an alteration in semitones
  with a display status (\<open>None\<close> = undetermined); an interval is a diatonic staff distance
  with a chromatic width in semitones; a key signature is its number of sharps (negative
  for flats).
\<close>

datatype stepName = StepC | StepD | StepE | StepF | StepG | StepA | StepB

record Accidental =
  alter :: rat
  displayStatus :: "bool option"

record Pitch =
  step :: stepName
  octave :: int
  accidental :: "Accidental option"

record Interval =
  staffDistance :: int
  semitones :: rat

type_synonym KeySignature = int

text \<open>Modelled from the spec: the table of standard accidental names and their alterations.\<close>

definition accidentalNameToAlter :: "(string \<times> rat) list" where
  "accidentalNameToAlter =
     [(''natural'', 0), (''sharp'', 1), (''double-sharp'', 2), (''triple-sharp'', 3),
      (''quadruple-sharp'', 4), (''flat'', -1), (''double-flat'', -2), (''triple-flat'', -3),
      (''quadruple-flat'', -4), (''half-sharp'', 1/2), (''one-and-a-half-sharp'', 3/2),
      (''half-flat'', -1/2), (''one-and-a-half-flat'', -3/2)]"

text \<open>Modelled from the spec: \<^verbatim>\<open>pitch.isValidAccidentalName\<close>, on the standard names.\<close>

definition isValidAccidentalName :: "string \<Rightarrow> bool" where
  "isValidAccidentalName name = (map_of accidentalNameToAlter name \<noteq> None)"

text \<open>Modelled from the spec: \<^verbatim>\<open>pitch.standardizeAccidentalName\<close>; a standard name is
  its own standard form.\<close>

definition standardizeAccidentalName :: "string \<Rightarrow> string" where
  "standardizeAccidentalName name = name"

text \<open>Modelled from the spec: \<^verbatim>\<open>pitch.Accidental(name)\<close>, display status undetermined.\<close>

definition AccidentalNamed :: "string \<Rightarrow> Accidental" where
  "AccidentalNamed name =
     \<lparr>alter = (case map_of accidentalNameToAlter name of None \<Rightarrow> 0 | Some a \<Rightarrow> a),
      displayStatus = None\<rparr>"

text \<open>Modelled from the spec: \<^verbatim>\<open>pitch.Accidental(number)\<close>.\<close>

definition AccidentalOf :: "rat \<Rightarrow> Accidental" where
  "AccidentalOf a = \<lparr>alter = a, displayStatus = None\<rparr>"

fun stepIndex :: "stepName \<Rightarrow> int" where
  "stepIndex StepC = 0"
| "stepIndex StepD = 1"
| "stepIndex StepE = 2"
| "stepIndex StepF = 3"
| "stepIndex StepG = 4"
| "stepIndex StepA = 5"
| "stepIndex StepB = 6"

fun stepSemitones :: "stepName \<Rightarrow> int" where
  "stepSemitones StepC = 0"
| "stepSemitones StepD = 2"
| "stepSemitones StepE = 4"
| "stepSemitones StepF = 5"
| "stepSemitones StepG = 7"
| "stepSemitones StepA = 9"
| "stepSemitones StepB = 11"

definition stepOfIndex :: "int \<Rightarrow> stepName" where
  "stepOfIndex i =
     (if i = 0 then StepC else if i = 1 then StepD else if i = 2 then StepE
      else if i = 3 then StepF else if i = 4 then StepG else if i = 5 then StepA
      else StepB)"

text \<open>Modelled from the spec: \<^verbatim>\<open>Pitch.diatonicNoteNum\<close> (C4 is 29) and
  \<^verbatim>\<open>Pitch.ps\<close>, the pitch-space number (C4 is 60).\<close>

definition diatonicNoteNum :: "Pitch \<Rightarrow> int" where
  "diatonicNoteNum p = octave p * 7 + stepIndex (step p) + 1"

definition accidentalAlter :: "Accidental option \<Rightarrow> rat" where
  "accidentalAlter a = (case a of None \<Rightarrow> 0 | Some acc \<Rightarrow> alter acc)"

definition ps :: "Pitch \<Rightarrow> rat" where
  "ps p = of_int ((octave p + 1) * 12 + stepSemitones (step p)) + accidentalAlter (accidental p)"

text \<open>Modelled from the spec: assigning \<^verbatim>\<open>Pitch.diatonicNoteNum\<close> sets step and octave
  and keeps the accidental.\<close>

definition setDiatonicNoteNum :: "int \<Rightarrow> Pitch \<Rightarrow> Pitch" where
  "setDiatonicNoteNum dn p = p\<lparr>step := stepOfIndex ((dn - 1) mod 7), octave := (dn - 1) div 7\<rparr>"

text \<open>Modelled from the spec: \<^verbatim>\<open>Pitch.transpose(GenericInterval(n), inPlace=True)\<close>, where
  the argument is the staff distance of the generic interval (\<open>1\<close> for a second up,
  \<open>-1\<close> for a second down).\<close>

definition transposeGeneric :: "int \<Rightarrow> Pitch \<Rightarrow> Pitch" where
  "transposeGeneric staffDist p = setDiatonicNoteNum (diatonicNoteNum p + staffDist) p"

text \<open>Modelled from the spec: \<^verbatim>\<open>interval.Interval(pitchStart, pitchEnd)\<close>.\<close>

definition IntervalBetween :: "Pitch \<Rightarrow> Pitch \<Rightarrow> Interval" where
  "IntervalBetween p1 p2 =
     \<lparr>staffDistance = diatonicNoteNum p2 - diatonicNoteNum p1, semitones = ps p2 - ps p1\<rparr>"

text \<open>Modelled from the spec: \<^verbatim>\<open>Interval.reverse()\<close>.\<close>

definition reverse :: "Interval \<Rightarrow> Interval" where
  "reverse i = \<lparr>staffDistance = - staffDistance i, semitones = - semitones i\<rparr>"

text \<open>Modelled from the spec: \<^verbatim>\<open>Pitch.transpose(interval)\<close>: move the step by the staff
  distance, then give the accidental that makes up the chromatic width; no accidental
  when nothing is left to make up.\<close>

definition transposePitch :: "Interval \<Rightarrow> Pitch \<Rightarrow> Pitch" where
  "transposePitch i p =
     (let pitch2 = (setDiatonicNoteNum (diatonicNoteNum p + staffDistance i) p)
                     \<lparr>accidental := None\<rparr>;
          halfStepsToFix = semitones i - (ps pitch2 - ps p)
      in if halfStepsToFix \<noteq> 0 then pitch2\<lparr>accidental := Some (AccidentalOf halfStepsToFix)\<rparr>
         else pitch2)"

text \<open>The named intervals that the fixed-size ornaments hold.\<close>

definition minorSecondUp :: Interval where
  "minorSecondUp = \<lparr>staffDistance = 1, semitones = 1\<rparr>"

definition majorSecondUp :: Interval where
  "majorSecondUp = \<lparr>staffDistance = 1, semitones = 2\<rparr>"

definition minorSecondDown :: Interval where
  "minorSecondDown = \<lparr>staffDistance = -1, semitones = -1\<rparr>"

definition majorSecondDown :: Interval where
  "majorSecondDown = \<lparr>staffDistance = -1, semitones = -2\<rparr>"

text \<open>Modelled from the spec: \<^verbatim>\<open>KeySignature.accidentalByStep\<close>, \<open>None\<close> for a step
  that the key signature leaves natural. Sharps come in the order F C G D A E B, flats in
  the order B E A D G C F; an eighth sharp or flat doubles the first.\<close>

fun sharpOrder :: "stepName \<Rightarrow> int" where
  "sharpOrder StepF = 0"
| "sharpOrder StepC = 1"
| "sharpOrder StepG = 2"
| "sharpOrder StepD = 3"
| "sharpOrder StepA = 4"
| "sharpOrder StepE = 5"
| "sharpOrder StepB = 6"

definition accidentalByStep :: "KeySignature \<Rightarrow> stepName \<Rightarrow> Accidental option" where
  "accidentalByStep sharps s =
     (let n = (if sharps > 0 then (sharps + 6 - sharpOrder s) div 7
               else if sharps < 0 then - ((- sharps + sharpOrder s) div 7)
               else 0)
      in if n = 0 then None else Some (AccidentalOf (of_int n)))"

section \<open>Ornaments and notes\<close>

text \<open>
  A value of \<^verbatim>\<open>Turn.delay\<close>. The attribute is declared
  \<^verbatim>\<open>OrnamentDelay | OffsetQL\<close>: a member of the enumeration, or a quarter length,
  which is a float or a \<^verbatim>\<open>Fraction\<close> (\<open>DelayQL\<close>, an exact fraction). Python
  checks no declaration, so the value can also be an \<^verbatim>\<open>int\<close> (\<open>DelayInt\<close>),
  and a float can be the one that is not a number (\<open>DelayNaN\<close>).
\<close>

datatype OrnamentDelay = NO_DELAY | DEFAULT_DELAY | DelayQL rat | DelayInt int | DelayNaN

text \<open>
  The classes of each family. The class fixes the direction of a mordent
  (\<^verbatim>\<open>_direction\<close>, empty in \<^verbatim>\<open>GeneralMordent\<close>) and whether the interval of a
  mordent or trill is fixed (\<^verbatim>\<open>HalfStep...\<close>, \<^verbatim>\<open>WholeStep...\<close>) or follows the key
  signature.
\<close>

datatype direction = Up | Down | NoDirection

text \<open>The test \<^verbatim>\<open>direction in ('up', 'down')\<close>.\<close>

fun isUpOrDown :: "direction \<Rightarrow> bool" where
  "isUpOrDown Up = True"
| "isUpOrDown Down = True"
| "isUpOrDown NoDirection = False"

datatype mordentClass =
    GeneralMordentC | MordentC | HalfStepMordentC | WholeStepMordentC
  | InvertedMordentC | HalfStepInvertedMordentC | WholeStepInvertedMordentC

datatype trillClass = TrillC | HalfStepTrillC | WholeStepTrillC | ShakeC

datatype appoggiaturaClass =
    GeneralAppoggiaturaC | AppoggiaturaC | HalfStepAppoggiaturaC | WholeStepAppoggiaturaC
  | InvertedAppoggiaturaC | HalfStepInvertedAppoggiaturaC | WholeStepInvertedAppoggiaturaC

text \<open>The names of the classes.\<close>

fun mordentClassName :: "mordentClass \<Rightarrow> string" where
  "mordentClassName GeneralMordentC = ''GeneralMordent''"
| "mordentClassName MordentC = ''Mordent''"
| "mordentClassName HalfStepMordentC = ''HalfStepMordent''"
| "mordentClassName WholeStepMordentC = ''WholeStepMordent''"
| "mordentClassName InvertedMordentC = ''InvertedMordent''"
| "mordentClassName HalfStepInvertedMordentC = ''HalfStepInvertedMordent''"
| "mordentClassName WholeStepInvertedMordentC = ''WholeStepInvertedMordent''"

fun trillClassName :: "trillClass \<Rightarrow> string" where
  "trillClassName TrillC = ''Trill''"
| "trillClassName HalfStepTrillC = ''HalfStepTrill''"
| "trillClassName WholeStepTrillC = ''WholeStepTrill''"
| "trillClassName ShakeC = ''Shake''"

fun appoggiaturaClassName :: "appoggiaturaClass \<Rightarrow> string" where
  "appoggiaturaClassName GeneralAppoggiaturaC = ''GeneralAppoggiatura''"
| "appoggiaturaClassName AppoggiaturaC = ''Appoggiatura''"
| "appoggiaturaClassName HalfStepAppoggiaturaC = ''HalfStepAppoggiatura''"
| "appoggiaturaClassName WholeStepAppoggiaturaC = ''WholeStepAppoggiatura''"
| "appoggiaturaClassName InvertedAppoggiaturaC = ''InvertedAppoggiatura''"
| "appoggiaturaClassName HalfStepInvertedAppoggiaturaC = ''HalfStepInvertedAppoggiatura''"
| "appoggiaturaClassName WholeStepInvertedAppoggiaturaC = ''WholeStepInvertedAppoggiatura''"

record Mordent =
  mordentClass :: mordentClass
  mordentAccidentalName :: string
  mordentQuarterLength :: rat
  mordentAutoScale :: bool

record Trill =
  trillClass :: trillClass
  trillAccidentalName :: string
  nachschlag :: bool
  trillQuarterLength :: rat
  trillAutoScale :: bool

record Turn =
  isInverted :: bool
  delay :: OrnamentDelay
  upperAccidentalName :: string
  lowerAccidentalName :: string
  turnQuarterLength :: rat
  turnAutoScale :: bool

text \<open>The direction and the size of an appoggiatura are attributes that its class sets
  and that can be assigned; \<open>appoggiaturaSize = None\<close> is the empty string that
  \<^verbatim>\<open>realize\<close> tests for.\<close>

record Appoggiatura =
  appoggiaturaClass :: appoggiaturaClass
  appoggiaturaDirection :: direction
  appoggiaturaSize :: "Interval option"

record Tremolo =
  measured :: bool
  numberOfMarks :: int

text \<open>
  An entry of a note's expression list. \<open>OrnamentExpr\<close> is an ornament that inherits
  \<^verbatim>\<open>Ornament.realize\<close> (the base class \<^verbatim>\<open>Ornament\<close>, \<^verbatim>\<open>Schleifer\<close>), given by
  its class name; \<open>OtherExpr\<close> is an expression without a \<^verbatim>\<open>realize\<close> method
  (\<^verbatim>\<open>Fermata\<close>, \<^verbatim>\<open>TextExpression\<close>, \<^verbatim>\<open>RehearsalMark\<close>,
  \<^verbatim>\<open>ArpeggioMark\<close>), given by its class name.
\<close>

datatype expression =
    MordentExpr Mordent
  | TrillExpr Trill
  | TurnExpr Turn
  | AppoggiaturaExpr Appoggiatura
  | TremoloExpr Tremolo
  | OrnamentExpr string
  | OtherExpr string

text \<open>The class of an expression, by its name.\<close>

fun expressionClass :: "expression \<Rightarrow> string" where
  "expressionClass (MordentExpr m) = mordentClassName (mordentClass m)"
| "expressionClass (TrillExpr t) = trillClassName (trillClass t)"
| "expressionClass (TurnExpr u) = (if isInverted u then ''InvertedTurn'' else ''Turn'')"
| "expressionClass (AppoggiaturaExpr a) = appoggiaturaClassName (appoggiaturaClass a)"
| "expressionClass (TremoloExpr tr) = ''Tremolo''"
| "expressionClass (OrnamentExpr className) = className"
| "expressionClass (OtherExpr className) = className"

text \<open>
  Modelled from the spec: the equality of \<^verbatim>\<open>Music21Object\<close>, which is defined in the
  base module, not part of the sources at hand, and which the expressions inherit. It is the
  equality by which \<^verbatim>\<open>in\<close>, \<^verbatim>\<open>index\<close> and \<^verbatim>\<open>remove\<close> find an element of
  an expression list: two objects are equal when they are of the same class and have the
  same duration, whatever their other attributes are. The expressions of this model carry
  no duration of their own: each has the duration that its constructor gives it, the same
  for all.
\<close>

definition sameExpression :: "expression \<Rightarrow> expression \<Rightarrow> bool" where
  "sameExpression a b = (expressionClass a = expressionClass b)"

text \<open>
  The notated event (\<^verbatim>\<open>note.Note\<close>). \<open>pitch = None\<close> is an unpitched event (no
  \<^verbatim>\<open>pitch\<close> attribute, empty \<^verbatim>\<open>pitches\<close>, no \<^verbatim>\<open>transpose\<close>);
  \<open>quarterLength\<close> is \<^verbatim>\<open>duration.quarterLength\<close>, an exact fraction;
  \<open>contextKeySig\<close> is what \<^verbatim>\<open>getContextByClass(key.KeySignature)\<close> finds for
  the event, and a deep copy finds the same.
\<close>

record Note =
  pitch :: "Pitch option"
  quarterLength :: rat
  expressions :: "expression list"
  contextKeySig :: "KeySignature option"

text \<open>
  What \<^verbatim>\<open>realize\<close> returns: the notes before the main note, the main note (or
  \<^verbatim>\<open>None\<close>) and the notes after it. Every \<^verbatim>\<open>realize\<close> of the model returns, next
  to this triple, the state in which the call leaves the caller's \<^verbatim>\<open>srcObj\<close>: each
  assignment that the source makes to the object \<^verbatim>\<open>srcObj\<close> itself is applied to
  it, and assignments to a deep copy are not.
\<close>

type_synonym realization = "Note list \<times> Note option \<times> Note list"

subsection \<open>Shared helpers\<close>

text \<open>The recurring lines
  \<^verbatim>\<open>if keySig is None: keySig = srcObj.getContextByClass(key.KeySignature)\<close>,
  \<^verbatim>\<open>if keySig is None: keySig = key.KeySignature(0)\<close>.\<close>

definition keySigOrContext :: "KeySignature option \<Rightarrow> Note \<Rightarrow> KeySignature" where
  "keySigOrContext keySig srcObj =
     (case keySig of
        Some k \<Rightarrow> k
      | None \<Rightarrow> (case contextKeySig srcObj of Some k \<Rightarrow> k | None \<Rightarrow> 0))"

text \<open>An accidental name is stored if it is not empty and valid, and the empty name
  otherwise (constructors and setters of \<^verbatim>\<open>GeneralMordent\<close>, \<^verbatim>\<open>Trill\<close> and
  \<^verbatim>\<open>Turn\<close>).\<close>

definition acceptAccidentalName :: "string \<Rightarrow> string" where
  "acceptAccidentalName name =
     (if name \<noteq> [] \<and> isValidAccidentalName name then standardizeAccidentalName name else [])"

text \<open>\<^verbatim>\<open>Note.transpose(interval, inPlace=True)\<close>.\<close>

definition noteTranspose :: "Interval \<Rightarrow> Note \<Rightarrow> Note" where
  "noteTranspose i n = n\<lparr>pitch := map_option (transposePitch i) (pitch n)\<rparr>"

text \<open>\<^verbatim>\<open>n.pitch.accidental = keySig.accidentalByStep(n.pitch.step)\<close>, and the same
  under the guard \<^verbatim>\<open>n.pitch.accidental is None\<close>.\<close>

definition setAccidentalFromKeySig :: "KeySignature \<Rightarrow> Note \<Rightarrow> Note" where
  "setAccidentalFromKeySig ks n =
     n\<lparr>pitch := map_option (\<lambda>p. p\<lparr>accidental := accidentalByStep ks (step p)\<rparr>) (pitch n)\<rparr>"

definition hasNoAccidental :: "Note \<Rightarrow> bool" where
  "hasNoAccidental n = (case pitch n of None \<Rightarrow> False | Some p \<Rightarrow> accidental p = None)"

text \<open>The loops \<^verbatim>\<open>for noteIdx, n in enumerate(notes)\<close> that give the notes at the
  chosen positions (counted from 1) the accidental of the key signature, unless they
  have one.\<close>

definition fillAccidentals :: "nat list \<Rightarrow> KeySignature \<Rightarrow> Note list \<Rightarrow> Note list" where
  "fillAccidentals noteNums ks notes =
     map (\<lambda>(noteIdx, n).
            if hasNoAccidental n \<and> noteIdx + 1 \<in> set noteNums
            then setAccidentalFromKeySig ks n else n)
         (zip [0..<length notes] notes)"

text \<open>\<^verbatim>\<open>list.index(self)\<close> under the guard \<^verbatim>\<open>self in list\<close>: the position of the
  first entry that is equal to the ornament, \<open>None\<close> when no entry is; and
  \<^verbatim>\<open>list.pop(i)\<close>.\<close>

fun indexOf :: "expression \<Rightarrow> expression list \<Rightarrow> nat option" where
  "indexOf x [] = None"
| "indexOf x (y # ys) =
     (if sameExpression y x then Some 0 else map_option Suc (indexOf x ys))"

definition popAt :: "nat option \<Rightarrow> 'a list \<Rightarrow> 'a list" where
  "popAt inExpressions xs =
     (case inExpressions of None \<Rightarrow> xs | Some i \<Rightarrow> take i xs @ drop (Suc i) xs)"

text \<open>The test \<^verbatim>\<open>self in list\<close>, and \<^verbatim>\<open>list.remove(self)\<close>, which removes the
  first entry that is equal to the ornament.\<close>

definition containsExpression :: "expression \<Rightarrow> expression list \<Rightarrow> bool" where
  "containsExpression x xs = (indexOf x xs \<noteq> None)"

definition removeExpression :: "expression \<Rightarrow> expression list \<Rightarrow> expression list" where
  "removeExpression x xs = popAt (indexOf x xs) xs"

text \<open>
  Python's \<^verbatim>\<open>repr\<close> of a string, which the messages of some exceptions quote. A
  character of the model is the code point of the same number, below 256. The string is put
  between apostrophes, or between double quotes when it has an apostrophe and no double
  quote; the backslash and the enclosing quote are escaped by a backslash; tab, line feed
  and carriage return are written \<^verbatim>\<open>\t\<close>, \<^verbatim>\<open>\n\<close> and \<^verbatim>\<open>\r\<close>; every other
  character that is not printable is written \<^verbatim>\<open>\xhh\<close>.
\<close>

definition hexDigit :: "nat \<Rightarrow> char" where
  "hexDigit n = ''0123456789abcdef'' ! (n mod 16)"

definition isPrintable :: "char \<Rightarrow> bool" where
  "isPrintable c =
     (let n = (of_char c :: nat)
      in (32 \<le> n \<and> n < 127) \<or> (160 < n \<and> n \<noteq> 173))"

definition pyReprChar :: "char \<Rightarrow> char \<Rightarrow> string" where
  "pyReprChar quote c =
     (if c = quote \<or> c = CHR 0x5C then [CHR 0x5C, c]
      else if c = CHR 0x09 then [CHR 0x5C, CHR ''t'']
      else if c = CHR 0x0A then [CHR 0x5C, CHR ''n'']
      else if c = CHR 0x0D then [CHR 0x5C, CHR ''r'']
      else if \<not> isPrintable c
      then [CHR 0x5C, CHR ''x'', hexDigit (of_char c div 16), hexDigit (of_char c)]
      else [c])"

definition pyRepr :: "string \<Rightarrow> string" where
  "pyRepr str =
     (let quote = (if CHR 0x27 \<in> set str \<and> CHR 0x22 \<notin> set str then CHR 0x22 else CHR 0x27)
      in [quote] @ concat (map (pyReprChar quote) str) @ [quote])"

text \<open>Python's \<^verbatim>\<open>str\<close> of an \<^verbatim>\<open>int\<close>: its decimal digits, after the sign.\<close>

fun pyStrNat :: "nat \<Rightarrow> string" where
  "pyStrNat n =
     (if n < 10 then [hexDigit n] else pyStrNat (n div 10) @ [hexDigit (n mod 10)])"

definition pyStr :: "int \<Rightarrow> string" where
  "pyStr i = (if i < 0 then ''-'' @ pyStrNat (nat (- i)) else pyStrNat (nat i))"

text \<open>Python's \<^verbatim>\<open>int(x)\<close> on a fraction: truncation towards zero.\<close>

definition pyInt :: "rat \<Rightarrow> int" where
  "pyInt x = (if 0 \<le> x then \<lfloor>x\<rfloor> else \<lceil>x\<rceil>)"

text \<open>\<^verbatim>\<open>Ornament.fillListOfRealizedNotes\<close>: two copies of the source note of length
  \<open>useQL\<close> (the ornament's quarter length if \<^verbatim>\<open>None\<close>), the second transposed, are
  appended to the list. The copies keep the expressions of the source note.\<close>

definition fillListOfRealizedNotes ::
    "rat \<Rightarrow> Note \<Rightarrow> Note list \<Rightarrow> Interval \<Rightarrow> rat option \<Rightarrow> error + Note list" where
  "fillListOfRealizedNotes selfQuarterLength srcObj fillObjects transposeInterval useQL =
     (if pitch srcObj = None then Inl (TypeError ''Expected note'')
      else
        let useQL' = (case useQL of None \<Rightarrow> selfQuarterLength | Some q \<Rightarrow> q);
            firstNote = srcObj\<lparr>quarterLength := useQL'\<rparr>;
            secondNote = noteTranspose transposeInterval (srcObj\<lparr>quarterLength := useQL'\<rparr>)
        in Inr (fillObjects @ [firstNote, secondNote]))"

text \<open>\<^verbatim>\<open>Ornament.realize\<close>, inherited by the ornaments that do not override it.\<close>

definition Ornament_realize ::
    "Note \<Rightarrow> KeySignature option \<Rightarrow> bool \<Rightarrow> error + (realization \<times> Note)" where
  "Ornament_realize srcObj keySig inPlace = Inr (([], Some srcObj, []), srcObj)"

section \<open>Mordent family\<close>

fun mordentDirection :: "mordentClass \<Rightarrow> direction" where
  "mordentDirection GeneralMordentC = NoDirection"
| "mordentDirection MordentC = Down"
| "mordentDirection HalfStepMordentC = Down"
| "mordentDirection WholeStepMordentC = Down"
| "mordentDirection InvertedMordentC = Up"
| "mordentDirection HalfStepInvertedMordentC = Up"
| "mordentDirection WholeStepInvertedMordentC = Up"

fun mordentFixedSize :: "mordentClass \<Rightarrow> Interval option" where
  "mordentFixedSize HalfStepMordentC = Some minorSecondDown"
| "mordentFixedSize WholeStepMordentC = Some majorSecondDown"
| "mordentFixedSize HalfStepInvertedMordentC = Some minorSecondUp"
| "mordentFixedSize WholeStepInvertedMordentC = Some majorSecondUp"
| "mordentFixedSize c = None"

text \<open>\<^verbatim>\<open>__init__\<close>: the fixed-size classes refuse the keyword \<^verbatim>\<open>accidentalName\<close>
  (\<open>None\<close> is the call without it); the others store a valid name and drop any other.\<close>

definition Mordent_init :: "mordentClass \<Rightarrow> string option \<Rightarrow> error + Mordent" where
  "Mordent_init c accidentalName =
     (if mordentFixedSize c \<noteq> None \<and> accidentalName \<noteq> None
      then Inl (ExpressionException
                  (''Cannot initialize '' @ mordentClassName c @ '' with accidentalName''))
      else Inr \<lparr>mordentClass = c,
                mordentAccidentalName =
                  (case accidentalName of None \<Rightarrow> [] | Some name \<Rightarrow> acceptAccidentalName name),
                mordentQuarterLength = 1/8, mordentAutoScale = True\<rparr>)"

text \<open>The property \<^verbatim>\<open>accidentalName\<close>: the fixed-size classes answer the empty name
  and refuse every assignment; \<^verbatim>\<open>GeneralMordent\<close> stores a valid name and resets the
  stored name to the empty one on any other.\<close>

definition Mordent_accidentalName :: "Mordent \<Rightarrow> string" where
  "Mordent_accidentalName self =
     (if mordentFixedSize (mordentClass self) \<noteq> None then [] else mordentAccidentalName self)"

definition Mordent_accidentalName_setter :: "Mordent \<Rightarrow> string \<Rightarrow> error + Mordent" where
  "Mordent_accidentalName_setter self newAccidentalName =
     (if mordentFixedSize (mordentClass self) \<noteq> None
      then Inl (ExpressionException
                  (''Cannot set accidentalName of '' @ mordentClassName (mordentClass self)))
      else if newAccidentalName \<noteq> [] \<and> isValidAccidentalName newAccidentalName
      then Inr (self\<lparr>mordentAccidentalName := standardizeAccidentalName newAccidentalName\<rparr>)
      else Inr (self\<lparr>mordentAccidentalName := []\<rparr>))"

text \<open>\<^verbatim>\<open>GeneralMordent.getSize\<close>, and the methods of the fixed-size classes that
  override it with a constant.\<close>

definition GeneralMordent_getSize ::
    "Mordent \<Rightarrow> Note \<Rightarrow> KeySignature option \<Rightarrow> error + Interval" where
  "GeneralMordent_getSize self srcObj keySig =
     (if \<not> isUpOrDown (mordentDirection (mordentClass self))
      then Inl (ExpressionException
                  ''Cannot compute mordent size if I do not know its direction'')
      else case pitch srcObj of
        None \<Rightarrow> Inl (TypeError ''Cannot compute mordent size with an unpitched srcObj'')
      | Some srcPitch \<Rightarrow>
          let keySig' = keySigOrContext keySig srcObj;
              ornamentalPitch =
                transposeGeneric (if mordentDirection (mordentClass self) = Up then 1 else -1)
                  (srcPitch\<lparr>accidental := None\<rparr>);
              ornamentalPitch' =
                (if Mordent_accidentalName self \<noteq> []
                 then ornamentalPitch
                        \<lparr>accidental := Some (AccidentalNamed (Mordent_accidentalName self))\<rparr>
                 else ornamentalPitch
                        \<lparr>accidental := accidentalByStep keySig' (step ornamentalPitch)\<rparr>)
          in Inr (IntervalBetween srcPitch ornamentalPitch'))"

definition Mordent_getSize ::
    "Mordent \<Rightarrow> Note \<Rightarrow> KeySignature option \<Rightarrow> error + Interval" where
  "Mordent_getSize self srcObj keySig =
     (case mordentFixedSize (mordentClass self) of
        Some fixed \<Rightarrow> Inr fixed
      | None \<Rightarrow> GeneralMordent_getSize self srcObj keySig)"

text \<open>\<^verbatim>\<open>GeneralMordent.resolveOrnamentalPitches\<close>; the result is the new value of
  \<^verbatim>\<open>_ornamentalPitches\<close>.\<close>

definition forceDisplay :: "Pitch \<Rightarrow> Pitch" where
  "forceDisplay p =
     p\<lparr>accidental :=
         Some ((case accidental p of None \<Rightarrow> AccidentalOf 0 | Some a \<Rightarrow> a)
                 \<lparr>displayStatus := Some True\<rparr>)\<rparr>"

definition Mordent_resolveOrnamentalPitches ::
    "Mordent \<Rightarrow> Note \<Rightarrow> KeySignature option \<Rightarrow> error + Pitch list" where
  "Mordent_resolveOrnamentalPitches self srcObj keySig =
     (case pitch srcObj of
        None \<Rightarrow> Inl (TypeError
                  ''Cannot resolve mordent's ornamental pitches with an unpitched srcObj'')
      | Some srcPitch \<Rightarrow>
          bindE (Mordent_getSize self srcObj keySig) (\<lambda>transposeInterval.
            let ornamentalPitch = transposePitch transposeInterval srcPitch
            in Inr [if Mordent_accidentalName self \<noteq> [] then forceDisplay ornamentalPitch
                    else ornamentalPitch]))"

text \<open>The length \<^verbatim>\<open>use_ql\<close> of each of the two notes of the mordent (the lines of
  \<^verbatim>\<open>GeneralMordent.realize\<close> from \<^verbatim>\<open>use_ql = self.quarterLength\<close>), for a
  source note of quarter length \<open>srcQL\<close>.\<close>

definition Mordent_useQL :: "Mordent \<Rightarrow> rat \<Rightarrow> error + rat" where
  "Mordent_useQL self srcQL =
     (if srcQL \<le> mordentQuarterLength self * 2
      then (if \<not> mordentAutoScale self
            then Inl (ExpressionException ''The note is not long enough to realize a mordent'')
            else Inr (srcQL / 4))
      else Inr (mordentQuarterLength self))"

text \<open>\<^verbatim>\<open>GeneralMordent.realize\<close>.\<close>

definition Mordent_realize ::
    "Mordent \<Rightarrow> Note \<Rightarrow> KeySignature option \<Rightarrow> bool \<Rightarrow> error + (realization \<times> Note)" where
  "Mordent_realize self srcObj keySig inPlace =
     (if \<not> isUpOrDown (mordentDirection (mordentClass self))
      then Inl (ExpressionException ''Cannot realize a mordent if I do not know its direction'')
      else if quarterLength srcObj = 0
      then Inl (ExpressionException ''Cannot steal time from an object with no duration'')
      else if pitch srcObj = None
      then Inl (TypeError ''Cannot realize a mordent with an unpitched srcObj'')
      else
        bindE (Mordent_useQL self (quarterLength srcObj)) (\<lambda>use_ql.
        let currentKeySig = keySigOrContext keySig srcObj;
            remainderQL = quarterLength srcObj - 2 * use_ql
        in bindE (Mordent_getSize self srcObj (Some currentKeySig)) (\<lambda>transposeInterval.
           bindE (fillListOfRealizedNotes (mordentQuarterLength self) srcObj []
                    transposeInterval (Some use_ql)) (\<lambda>mordNotes.
             let mordNotes' = fillAccidentals [2] currentKeySig mordNotes;
                 inExpressions = indexOf (MordentExpr self) (expressions srcObj);
                 remainderNote =
                   srcObj\<lparr>quarterLength := remainderQL,
                          expressions := popAt inExpressions (expressions srcObj)\<rparr>
             in Inr ((mordNotes', Some remainderNote, []),
                     if inPlace then remainderNote else srcObj)))))"

section \<open>Trill family\<close>

fun trillFixedSize :: "trillClass \<Rightarrow> Interval option" where
  "trillFixedSize HalfStepTrillC = Some minorSecondUp"
| "trillFixedSize WholeStepTrillC = Some majorSecondUp"
| "trillFixedSize c = None"

text \<open>The flag \<^verbatim>\<open>_setAccidentalFromKeySig\<close>, which the fixed-size classes turn off.\<close>

definition trillSetAccidentalFromKeySig :: "Trill \<Rightarrow> bool" where
  "trillSetAccidentalFromKeySig self = (trillFixedSize (trillClass self) = None)"

definition Trill_init :: "trillClass \<Rightarrow> string option \<Rightarrow> error + Trill" where
  "Trill_init c accidentalName =
     (if trillFixedSize c \<noteq> None \<and> accidentalName \<noteq> None
      then Inl (ExpressionException
                  (''Cannot initialize '' @ trillClassName c @ '' with accidentalName''))
      else Inr \<lparr>trillClass = c,
                trillAccidentalName =
                  (case accidentalName of None \<Rightarrow> [] | Some name \<Rightarrow> acceptAccidentalName name),
                nachschlag = False,
                trillQuarterLength = (if c = ShakeC then 1/4 else 1/8),
                trillAutoScale = True\<rparr>)"

definition Trill_accidentalName :: "Trill \<Rightarrow> string" where
  "Trill_accidentalName self =
     (if trillFixedSize (trillClass self) \<noteq> None then [] else trillAccidentalName self)"

definition Trill_accidentalName_setter :: "Trill \<Rightarrow> string \<Rightarrow> error + Trill" where
  "Trill_accidentalName_setter self newAccidentalName =
     (if trillFixedSize (trillClass self) \<noteq> None
      then Inl (ExpressionException
                  (''Cannot set accidentalName of '' @ trillClassName (trillClass self)))
      else if newAccidentalName \<noteq> [] \<and> isValidAccidentalName newAccidentalName
      then Inr (self\<lparr>trillAccidentalName := standardizeAccidentalName newAccidentalName\<rparr>)
      else Inr (self\<lparr>trillAccidentalName := []\<rparr>))"

text \<open>\<^verbatim>\<open>Trill.getSize\<close>, and the constant of the fixed-size classes.\<close>

definition Trill_getSize ::
    "Trill \<Rightarrow> Note \<Rightarrow> KeySignature option \<Rightarrow> error + Interval" where
  "Trill_getSize self srcObj keySig =
     (case trillFixedSize (trillClass self) of
        Some fixed \<Rightarrow> Inr fixed
      | None \<Rightarrow>
         (case pitch srcObj of
            None \<Rightarrow> Inl (TypeError ''Cannot compute trill's size with an unpitched srcObj'')
          | Some srcPitch \<Rightarrow>
              let keySig' = keySigOrContext keySig srcObj;
                  ornamentalPitch = transposeGeneric 1 (srcPitch\<lparr>accidental := None\<rparr>);
                  ornamentalPitch' =
                    (if Trill_accidentalName self \<noteq> []
                     then ornamentalPitch
                            \<lparr>accidental := Some (AccidentalNamed (Trill_accidentalName self))\<rparr>
                     else ornamentalPitch
                            \<lparr>accidental := accidentalByStep keySig' (step ornamentalPitch)\<rparr>)
              in Inr (IntervalBetween srcPitch ornamentalPitch')))"

definition Trill_resolveOrnamentalPitches ::
    "Trill \<Rightarrow> Note \<Rightarrow> KeySignature option \<Rightarrow> error + Pitch list" where
  "Trill_resolveOrnamentalPitches self srcObj keySig =
     (case pitch srcObj of
        None \<Rightarrow> Inl (TypeError
                  ''Cannot resolve trill's ornamental pitches with an unpitched srcObj'')
      | Some srcPitch \<Rightarrow>
          bindE (Trill_getSize self srcObj keySig) (\<lambda>transposeInterval.
            let ornamentalPitch = transposePitch transposeInterval srcPitch
            in Inr [if Trill_accidentalName self \<noteq> [] then forceDisplay ornamentalPitch
                    else ornamentalPitch]))"

text \<open>The length \<^verbatim>\<open>useQL\<close> of each note of the trill (the lines of \<^verbatim>\<open>Trill.realize\<close>
  from \<^verbatim>\<open>useQL = self.quarterLength\<close> to the nachschlag test), for a source note of
  quarter length \<open>srcQL\<close>.\<close>

definition Trill_useQL :: "Trill \<Rightarrow> rat \<Rightarrow> error + rat" where
  "Trill_useQL self srcQL =
     (if srcQL = 0
      then Inl (ExpressionException ''Cannot steal time from an object with no duration'')
      else if srcQL < 2 * trillQuarterLength self \<and> \<not> trillAutoScale self
      then Inl (ExpressionException ''The note is not long enough to realize a trill'')
      else
        let useQL = (if srcQL < 2 * trillQuarterLength self then srcQL / 2
                     else trillQuarterLength self)
        in if srcQL < 4 * trillQuarterLength self \<and> nachschlag self
           then (if \<not> trillAutoScale self
                 then Inl (ExpressionException ''The note is not long enough for a nachschlag'')
                 else Inr (srcQL / 4))
           else Inr useQL)"

text \<open>The loop \<^verbatim>\<open>for unused_counter in range(...)\<close> around
  \<^verbatim>\<open>fillListOfRealizedNotes\<close>.\<close>

fun fillTrillNotes ::
    "nat \<Rightarrow> rat \<Rightarrow> Note \<Rightarrow> Note list \<Rightarrow> Interval \<Rightarrow> rat \<Rightarrow> error + Note list" where
  "fillTrillNotes 0 selfQL srcObj trillNotes transposeInterval useQL = Inr trillNotes"
| "fillTrillNotes (Suc k) selfQL srcObj trillNotes transposeInterval useQL =
     bindE (fillListOfRealizedNotes selfQL srcObj trillNotes transposeInterval (Some useQL))
       (\<lambda>trillNotes'. fillTrillNotes k selfQL srcObj trillNotes' transposeInterval useQL)"

text \<open>\<^verbatim>\<open>Pitch.nameWithOctave\<close>, as the data it spells: step, alteration, octave.\<close>

definition nameWithOctave :: "Pitch \<Rightarrow> stepName \<times> rat \<times> int" where
  "nameWithOctave p = (step p, accidentalAlter (accidental p), octave p)"

text \<open>The loop of \<^verbatim>\<open>Trill.realize\<close> that corrects the notes of the trill from the key
  signature: never a note with the name of the source note, never a note that has an
  accidental.\<close>

definition correctTrillNote :: "KeySignature \<Rightarrow> Note \<Rightarrow> Note \<Rightarrow> Note" where
  "correctTrillNote ks srcObj n =
     (if map_option nameWithOctave (pitch n) \<noteq> map_option nameWithOctave (pitch srcObj)
         \<and> hasNoAccidental n
      then setAccidentalFromKeySig ks n else n)"

text \<open>
  Python's true division \<^verbatim>\<open>/\<close> is a parameter \<open>trueDiv\<close> of the model. A quarter
  length is a float or a \<^verbatim>\<open>Fraction\<close>; the quotient of two \<^verbatim>\<open>Fraction\<close>s is
  exact, and the quotient in which a float takes part, as that of two \<^verbatim>\<open>int\<close>s, is
  computed in floating point and rounded to a double. The quotients by the literals 2 and
  4 that compute a length are exact in both cases and are written with the division of
  the rationals. \<open>exactDiv\<close> is the division that never rounds.
\<close>

type_synonym division = "rat \<Rightarrow> rat \<Rightarrow> rat"

definition exactDiv :: division where
  "exactDiv a b = a / b"

text \<open>The number of notes of the trill,
  \<^verbatim>\<open>numberOfTrillNotes = int(srcObj.duration.quarterLength / useQL)\<close>, less two for a
  nachschlag; the division fails on a zero \<^verbatim>\<open>useQL\<close>.\<close>

definition numberOfTrillNotes :: "division \<Rightarrow> Trill \<Rightarrow> rat \<Rightarrow> rat \<Rightarrow> error + int" where
  "numberOfTrillNotes trueDiv self srcQL useQL =
     (if useQL = 0 then Inl ZeroDivisionError
      else Inr (pyInt (trueDiv srcQL useQL) - (if nachschlag self then 2 else 0)))"

text \<open>\<^verbatim>\<open>Trill.realize\<close>. The bound of its loop is
  \<^verbatim>\<open>range(int(numberOfTrillNotes / 2))\<close>, a true division of two \<^verbatim>\<open>int\<close>s.\<close>

definition Trill_realize ::
    "division \<Rightarrow> Trill \<Rightarrow> Note \<Rightarrow> KeySignature option \<Rightarrow> bool
       \<Rightarrow> error + (realization \<times> Note)" where
  "Trill_realize trueDiv self srcObj keySig inPlace =
     (if pitch srcObj = None
      then Inl (TypeError ''Cannot realize trill with an unpitched srcObj'')
      else
        bindE (Trill_useQL self (quarterLength srcObj)) (\<lambda>useQL.
        let currentKeySig = keySigOrContext keySig srcObj
        in bindE (Trill_getSize self srcObj (Some currentKeySig)) (\<lambda>transposeInterval.
           bindE (numberOfTrillNotes trueDiv self (quarterLength srcObj) useQL)
             (\<lambda>numberOfNotes.
           bindE (fillTrillNotes (nat (pyInt (trueDiv (of_int numberOfNotes) 2)))
                    (trillQuarterLength self) srcObj [] transposeInterval useQL) (\<lambda>trillNotes.
             let trillNotes' =
                   (if trillSetAccidentalFromKeySig self
                    then map (correctTrillNote currentKeySig srcObj) trillNotes
                    else trillNotes);
                 srcObj' =
                   (if inPlace \<and> containsExpression (TrillExpr self) (expressions srcObj)
                    then srcObj\<lparr>expressions :=
                                  removeExpression (TrillExpr self) (expressions srcObj)\<rparr>
                    else srcObj)
             in if nachschlag self
                then
                  let firstNoteNachschlag =
                        srcObj'\<lparr>expressions := [], quarterLength := useQL\<rparr>;
                      secondNoteNachschlag =
                        noteTranspose (reverse transposeInterval)
                          (srcObj'\<lparr>expressions := [], quarterLength := useQL\<rparr>);
                      nachschlagNotes =
                        (if trillSetAccidentalFromKeySig self
                         then [setAccidentalFromKeySig currentKeySig firstNoteNachschlag,
                               setAccidentalFromKeySig currentKeySig secondNoteNachschlag]
                         else [firstNoteNachschlag, secondNoteNachschlag])
                  in Inr ((trillNotes', None, nachschlagNotes), srcObj')
                else Inr ((trillNotes', None, []), srcObj'))))))"

section \<open>Turn family\<close>

text \<open>
  The setter of \<^verbatim>\<open>Turn.delay\<close>. Its guard is
  \<^verbatim>\<open>isinstance(newDelay, (float, Fraction)) and newDelay <= 0\<close>: a float or a
  \<^verbatim>\<open>Fraction\<close> that is not positive becomes \<^verbatim>\<open>NO_DELAY\<close>. An \<^verbatim>\<open>int\<close> is
  neither and is stored as it is, whatever its sign; the float that is not a number is not
  \<^verbatim>\<open><= 0\<close> and is stored as it is.
\<close>

fun delay_setter :: "Turn \<Rightarrow> OrnamentDelay \<Rightarrow> Turn" where
  "delay_setter self (DelayQL newDelay) =
     (if newDelay \<le> 0 then self\<lparr>delay := NO_DELAY\<rparr> else self\<lparr>delay := DelayQL newDelay\<rparr>)"
| "delay_setter self (DelayInt newDelay) = self\<lparr>delay := DelayInt newDelay\<rparr>"
| "delay_setter self DelayNaN = self\<lparr>delay := DelayNaN\<rparr>"
| "delay_setter self NO_DELAY = self\<lparr>delay := NO_DELAY\<rparr>"
| "delay_setter self DEFAULT_DELAY = self\<lparr>delay := DEFAULT_DELAY\<rparr>"

definition isDelayed :: "Turn \<Rightarrow> bool" where
  "isDelayed self = (delay self \<noteq> NO_DELAY)"

text \<open>\<^verbatim>\<open>Turn.__init__\<close> (\<^verbatim>\<open>InvertedTurn\<close> when \<open>inverted\<close>): the accidental names
  that are not valid are dropped, \<^verbatim>\<open>_delay\<close> starts as \<open>0.0\<close> and the delay goes
  through the setter.\<close>

definition Turn_init :: "bool \<Rightarrow> OrnamentDelay \<Rightarrow> string \<Rightarrow> string \<Rightarrow> Turn" where
  "Turn_init inverted newDelay upperName lowerName =
     delay_setter
       \<lparr>isInverted = inverted, delay = DelayQL 0,
        upperAccidentalName = acceptAccidentalName upperName,
        lowerAccidentalName = acceptAccidentalName lowerName,
        turnQuarterLength = 1/4, turnAutoScale = True\<rparr>
       newDelay"

definition upperAccidentalName_setter :: "Turn \<Rightarrow> string \<Rightarrow> Turn" where
  "upperAccidentalName_setter self newUpperAccidentalName =
     (if newUpperAccidentalName \<noteq> [] \<and> isValidAccidentalName newUpperAccidentalName
      then self\<lparr>upperAccidentalName := standardizeAccidentalName newUpperAccidentalName\<rparr>
      else self\<lparr>upperAccidentalName := []\<rparr>)"

definition lowerAccidentalName_setter :: "Turn \<Rightarrow> string \<Rightarrow> Turn" where
  "lowerAccidentalName_setter self newLowerAccidentalName =
     (if newLowerAccidentalName \<noteq> [] \<and> isValidAccidentalName newLowerAccidentalName
      then self\<lparr>lowerAccidentalName := standardizeAccidentalName newLowerAccidentalName\<rparr>
      else self\<lparr>lowerAccidentalName := []\<rparr>)"

text \<open>\<^verbatim>\<open>Turn.getSize\<close>.\<close>

definition Turn_getSize ::
    "Turn \<Rightarrow> Note \<Rightarrow> KeySignature option \<Rightarrow> string \<Rightarrow> error + Interval" where
  "Turn_getSize self srcObj keySig which =
     (if which \<notin> {''upper'', ''lower''}
      then Inl (ExpressionException
                  ''Turn.getSize requires 'which' parameter be set to 'upper' or 'lower' '')
      else case pitch srcObj of
        None \<Rightarrow> Inl (TypeError ''Cannot compute Turn size with an unpitched srcObj'')
      | Some srcPitch \<Rightarrow>
          let keySig' = keySigOrContext keySig srcObj;
              ornamentalPitch =
                transposeGeneric (if which = ''upper'' then 1 else -1)
                  (srcPitch\<lparr>accidental := None\<rparr>);
              accidentalName =
                (if which = ''upper'' then upperAccidentalName self
                 else lowerAccidentalName self);
              ornamentalPitch' =
                (if accidentalName \<noteq> []
                 then ornamentalPitch\<lparr>accidental := Some (AccidentalNamed accidentalName)\<rparr>
                 else ornamentalPitch
                        \<lparr>accidental := accidentalByStep keySig' (step ornamentalPitch)\<rparr>)
          in Inr (IntervalBetween srcPitch ornamentalPitch'))"

text \<open>\<^verbatim>\<open>Turn.resolveOrnamentalPitches\<close>: the upper pitch, then the lower one.\<close>

definition Turn_resolveOrnamentalPitches ::
    "Turn \<Rightarrow> Note \<Rightarrow> KeySignature option \<Rightarrow> error + Pitch list" where
  "Turn_resolveOrnamentalPitches self srcObj keySig =
     (case pitch srcObj of
        None \<Rightarrow> Inl (TypeError
                  ''Cannot resolve turn's ornamental pitches with an unpitched srcObj'')
      | Some srcPitch \<Rightarrow>
          bindE (Turn_getSize self srcObj keySig ''upper'') (\<lambda>transposeIntervalUp.
          bindE (Turn_getSize self srcObj keySig ''lower'') (\<lambda>transposeIntervalDown.
            let upperPitch = transposePitch transposeIntervalUp srcPitch;
                lowerPitch = transposePitch transposeIntervalDown srcPitch
            in Inr [if upperAccidentalName self \<noteq> [] then forceDisplay upperPitch
                    else upperPitch,
                    if lowerAccidentalName self \<noteq> [] then forceDisplay lowerPitch
                    else lowerPitch])))"

text \<open>The delay as a remainder duration (the lines of \<^verbatim>\<open>Turn.realize\<close> from
  \<^verbatim>\<open>if self.delay == OrnamentDelay.NO_DELAY\<close>); \<^verbatim>\<open>opFrac\<close> is the identity on exact
  fractions. \<open>None\<close> is the float that is not a number.\<close>

definition turnRemainderDuration :: "Turn \<Rightarrow> rat \<Rightarrow> rat option" where
  "turnRemainderDuration self srcQL =
     (case delay self of
        NO_DELAY \<Rightarrow> Some 0
      | DEFAULT_DELAY \<Rightarrow> Some (srcQL / 2)
      | DelayQL theDelay \<Rightarrow> Some theDelay
      | DelayInt theDelay \<Rightarrow> Some (of_int theDelay)
      | DelayNaN \<Rightarrow> None)"

text \<open>The lengths of the notes of the turn (the lines of \<^verbatim>\<open>Turn.realize\<close> from
  \<^verbatim>\<open>turnDuration = ...\<close>): \<^verbatim>\<open>useQL\<close> and \<^verbatim>\<open>fourthNoteQL\<close>, which is
  \<^verbatim>\<open>None\<close> unless the fourth note is held.\<close>

definition turnNoteLengths :: "Turn \<Rightarrow> rat \<Rightarrow> error + (rat \<times> rat option)" where
  "turnNoteLengths self turnDuration =
     (if turnDuration < 4 * turnQuarterLength self
      then (if \<not> turnAutoScale self
            then Inl (ExpressionException ''The note is not long enough to realize a turn'')
            else Inr (turnDuration / 4, None))
      else if turnDuration > 4 * turnQuarterLength self
      then Inr (turnQuarterLength self, Some (turnDuration - 3 * turnQuarterLength self))
      else Inr (turnQuarterLength self, None))"

text \<open>
  Modelled from the spec: the assignment \<^verbatim>\<open>duration.quarterLength = q\<close> of the duration
  model, which is not part of the sources at hand, for the lengths that
  \<^verbatim>\<open>Turn.realize\<close> assigns: these can be zero (a delay that takes the whole event, a
  configured length of zero), and the duration model does not store a length of zero: the
  event keeps the length that it has. A delay that exceeds the event and a configured
  length below zero give lengths below zero, which the model stores as they are given; the
  properties below are stated for lengths above zero.
\<close>

definition assignQuarterLength :: "rat \<Rightarrow> Note \<Rightarrow> Note" where
  "assignQuarterLength q n = (if q = 0 then n else n\<lparr>quarterLength := q\<rparr>)"

text \<open>The four notes of the turn (the lines of \<^verbatim>\<open>Turn.realize\<close> from
  \<^verbatim>\<open>firstNote = copy.deepcopy(srcObj)\<close> to the loop that fills the accidentals of
  the first and third note). The key signature of that loop is
  \<^verbatim>\<open>srcObj.getContextByClass(key.KeySignature)\<close>, whatever \<^verbatim>\<open>keySig\<close> was
  passed to \<^verbatim>\<open>realize\<close>.\<close>

definition turnNotesOf ::
    "Note \<Rightarrow> rat \<Rightarrow> rat option \<Rightarrow> Interval \<Rightarrow> Interval \<Rightarrow> Note list" where
  "turnNotesOf srcObj useQL fourthNoteQL firstTransposeInterval secondTransposeInterval =
     (let firstNote =
            noteTranspose firstTransposeInterval
              (assignQuarterLength useQL (srcObj\<lparr>expressions := []\<rparr>));
          secondNote = assignQuarterLength useQL (srcObj\<lparr>expressions := []\<rparr>);
          thirdNote =
            noteTranspose secondTransposeInterval
              (assignQuarterLength useQL (srcObj\<lparr>expressions := []\<rparr>));
          fourthNote =
            assignQuarterLength (case fourthNoteQL of None \<Rightarrow> useQL | Some q \<Rightarrow> q)
              (srcObj\<lparr>expressions := []\<rparr>);
          currentKeySig = (case contextKeySig srcObj of Some k \<Rightarrow> k | None \<Rightarrow> 0)
      in fillAccidentals [1, 3] currentKeySig [firstNote, secondNote, thirdNote, fourthNote])"

text \<open>
  \<^verbatim>\<open>Turn.realize\<close> for a delay that is a number or a member of the enumeration, from
  the line \<^verbatim>\<open>turnDuration = ...\<close> on.
\<close>

definition Turn_realizeFrom ::
    "Turn \<Rightarrow> Note \<Rightarrow> KeySignature option \<Rightarrow> bool \<Rightarrow> rat \<Rightarrow> error + (realization \<times> Note)" where
  "Turn_realizeFrom self srcObj keySig inPlace remainderDuration =
     (let turnDuration = quarterLength srcObj - remainderDuration
      in bindE (turnNoteLengths self turnDuration) (\<lambda>(useQL, fourthNoteQL).
         bindE (Turn_getSize self srcObj keySig
                  (if \<not> isInverted self then ''upper'' else ''lower''))
           (\<lambda>firstTransposeInterval.
         bindE (Turn_getSize self srcObj keySig
                  (if \<not> isInverted self then ''lower'' else ''upper''))
           (\<lambda>secondTransposeInterval.
           let turnNotes =
                 turnNotesOf srcObj useQL fourthNoteQL
                   firstTransposeInterval secondTransposeInterval;
               inExpressions = indexOf (TurnExpr self) (expressions srcObj)
           in if remainderDuration = 0
              then Inr (([], None, turnNotes), srcObj)
              else
                let remainderNote =
                      (assignQuarterLength remainderDuration srcObj)
                        \<lparr>expressions := popAt inExpressions (expressions srcObj)\<rparr>
                in Inr (([], Some remainderNote, turnNotes),
                        if inPlace then remainderNote else srcObj)))))"

text \<open>
  Modelled from the spec: the duration model, which is not part of the sources at hand,
  refuses the assignment of a quarter length that is not a number, with a
  \<^verbatim>\<open>ValueError\<close>.
\<close>

text \<open>
  \<^verbatim>\<open>Turn.realize\<close>. With a delay that is not a number, every comparison of the
  duration of the turn is false, so the four notes have the configured length; the
  remainder is not equal to zero, and the assignment of its length to the remainder note
  is the one that fails.
\<close>

definition Turn_realize ::
    "Turn \<Rightarrow> Note \<Rightarrow> KeySignature option \<Rightarrow> bool \<Rightarrow> error + (realization \<times> Note)" where
  "Turn_realize self srcObj keySig inPlace =
     (if pitch srcObj = None
      then Inl (TypeError ''Cannot realize turn with Unpitched srcObj'')
      else if quarterLength srcObj = 0
      then Inl (ExpressionException ''Cannot steal time from an object with no duration'')
      else
        case turnRemainderDuration self (quarterLength srcObj) of
          Some remainderDuration \<Rightarrow> Turn_realizeFrom self srcObj keySig inPlace remainderDuration
        | None \<Rightarrow>
            bindE (Turn_getSize self srcObj keySig
                     (if \<not> isInverted self then ''upper'' else ''lower''))
              (\<lambda>firstTransposeInterval.
            bindE (Turn_getSize self srcObj keySig
                     (if \<not> isInverted self then ''lower'' else ''upper''))
              (\<lambda>secondTransposeInterval.
                Inl (ValueError ''Invalid quarterLength for duration: nan''))))"

section \<open>Appoggiatura family\<close>

text \<open>\<^verbatim>\<open>GeneralAppoggiatura.realize\<close>. The classes differ in the direction and the
  size that they set: \<^verbatim>\<open>Interval(2)\<close>, a major second, unless the class is a
  \<^verbatim>\<open>HalfStep...\<close> one. The method has no test for a pitch: on an unpitched event
  the call of \<^verbatim>\<open>transpose\<close> on the copy fails, as the event has no such method.\<close>

definition Appoggiatura_realize ::
    "Appoggiatura \<Rightarrow> Note \<Rightarrow> KeySignature option \<Rightarrow> bool
       \<Rightarrow> error + (realization \<times> Note)" where
  "Appoggiatura_realize self srcObj keySig inPlace =
     (if \<not> isUpOrDown (appoggiaturaDirection self)
      then Inl (ExpressionException
                  ''Cannot realize an Appoggiatura if I do not know its direction'')
      else case appoggiaturaSize self of
        None \<Rightarrow> Inl (ExpressionException
                  ''Cannot realize an Appoggiatura if there is no size given'')
      | Some theSize \<Rightarrow>
          if quarterLength srcObj = 0
          then Inl (ExpressionException ''Cannot steal time from an object with no duration'')
          else if pitch srcObj = None
          then Inl (AttributeError ''transpose'')
          else
            let newDuration = quarterLength srcObj / 2;
                transposeInterval =
                  (if appoggiaturaDirection self = Down then theSize else reverse theSize);
                appoggiaturaNote =
                  noteTranspose transposeInterval (srcObj\<lparr>quarterLength := newDuration\<rparr>);
                inExpressions = indexOf (AppoggiaturaExpr self) (expressions srcObj);
                remainderNote =
                  srcObj\<lparr>quarterLength := newDuration,
                         expressions := popAt inExpressions (expressions srcObj)\<rparr>
            in Inr (([appoggiaturaNote], Some remainderNote, []),
                    if inPlace then remainderNote else srcObj))"

section \<open>Tremolo\<close>

text \<open>
  The setter of \<^verbatim>\<open>Tremolo.numberOfMarks\<close> takes a value of any type and converts it
  with \<^verbatim>\<open>int(num)\<close>. The values of the model are the numbers and the strings: an
  \<^verbatim>\<open>int\<close>; a finite float or a \<^verbatim>\<open>Fraction\<close>, by its value; the float that is not a
  number; an infinite float; a string.
\<close>

datatype pyValue =
    PyInt int
  | PyFloat rat
  | PyNaN
  | PyInfinity
  | PyStr string

text \<open>
  Python's \<^verbatim>\<open>int(x)\<close>: a float or a \<^verbatim>\<open>Fraction\<close> is truncated towards zero,
  the float that is not a number raises a \<^verbatim>\<open>ValueError\<close>, an infinite float an
  \<^verbatim>\<open>OverflowError\<close>. The reading of a string as a decimal literal is the parameter
  \<open>parseInt\<close>, which is \<open>None\<close> where \<^verbatim>\<open>int\<close> raises its \<^verbatim>\<open>ValueError\<close>.
\<close>

fun pyIntOf :: "(string \<Rightarrow> int option) \<Rightarrow> pyValue \<Rightarrow> error + int" where
  "pyIntOf parseInt (PyInt i) = Inr i"
| "pyIntOf parseInt (PyFloat x) = Inr (pyInt x)"
| "pyIntOf parseInt PyNaN = Inl (ValueError ''cannot convert float NaN to integer'')"
| "pyIntOf parseInt PyInfinity = Inl (OverflowError ''cannot convert float infinity to integer'')"
| "pyIntOf parseInt (PyStr str) =
     (case parseInt str of
        Some i \<Rightarrow> Inr i
      | None \<Rightarrow> Inl (ValueError (''invalid literal for int() with base 10: '' @ pyRepr str)))"

text \<open>
  The setter of \<^verbatim>\<open>Tremolo.numberOfMarks\<close>: the range is tested on the converted value,
  and the handler \<^verbatim>\<open>except ValueError\<close> replaces a \<^verbatim>\<open>ValueError\<close> of the
  conversion or of the range test (\<^verbatim>\<open>raise ValueError(str(num))\<close>) by the
  \<^verbatim>\<open>TremoloException\<close>; any other exception passes.
\<close>

definition numberOfMarks_setter ::
    "(string \<Rightarrow> int option) \<Rightarrow> Tremolo \<Rightarrow> pyValue \<Rightarrow> error + Tremolo" where
  "numberOfMarks_setter parseInt self num =
     (case bindE (pyIntOf parseInt num)
             (\<lambda>num'. if num' < 0 \<or> num' > 8
                      then Inl (ValueError (pyStr num'))
                      else Inr (self\<lparr>numberOfMarks := num'\<rparr>)) of
        Inl (ValueError ve) \<Rightarrow>
          Inl (TremoloException ''Number of marks must be a number from 0 to 8'')
      | Inl otherError \<Rightarrow> Inl otherError
      | Inr self' \<Rightarrow> Inr self')"

definition Tremolo_init :: Tremolo where
  "Tremolo_init = \<lparr>measured = True, numberOfMarks = 3\<rparr>"

text \<open>\<^verbatim>\<open>lengthOfEach = 2**(-1 * self.numberOfMarks)\<close>.\<close>

definition lengthOfEach :: "Tremolo \<Rightarrow> rat" where
  "lengthOfEach self =
     (if 0 \<le> numberOfMarks self then 1 / 2 ^ nat (numberOfMarks self)
      else 2 ^ nat (- numberOfMarks self))"

lemma lengthOfEach_pos: "0 < lengthOfEach self"
  by (simp add: lengthOfEach_def)

text \<open>Modelled from the spec: \<^verbatim>\<open>splitAtQuarterLength(quarterLength, retainOrigin=False)\<close>
  of the event model, which is not part of the sources at hand. It splits an event at a
  boundary into two new events of the same pitch: the first of the given length, the
  second of what is left.\<close>

definition splitAtQuarterLength :: "rat \<Rightarrow> Note \<Rightarrow> Note \<times> Note" where
  "splitAtQuarterLength ql e =
     (e\<lparr>quarterLength := ql\<rparr>, e\<lparr>quarterLength := quarterLength e - ql\<rparr>)"

text \<open>The loop \<^verbatim>\<open>while eRemain is not None and eRemain.quarterLength > lengthOfEach\<close>
  of \<^verbatim>\<open>Tremolo.realize\<close>, with the statement that follows it.\<close>

function tremoloSplit :: "Tremolo \<Rightarrow> Note \<Rightarrow> Note list \<Rightarrow> Note list" where
  "tremoloSplit self eRemain objsConverted =
     (if quarterLength eRemain > lengthOfEach self
      then tremoloSplit self (snd (splitAtQuarterLength (lengthOfEach self) eRemain))
             (objsConverted @ [fst (splitAtQuarterLength (lengthOfEach self) eRemain)])
      else objsConverted @ [eRemain])"
  by pat_completeness auto
termination
proof (relation "measure (\<lambda>(self, eRemain, objsConverted).
                   nat \<lceil>quarterLength eRemain / lengthOfEach self\<rceil>)")
  show "wf (measure (\<lambda>(self, eRemain, objsConverted).
              nat \<lceil>quarterLength eRemain / lengthOfEach self\<rceil>))"
    by simp
next
  fix self :: Tremolo and eRemain :: Note and objsConverted :: "Note list"
  assume more: "lengthOfEach self < quarterLength eRemain"
  have pos: "0 < lengthOfEach self" by (rule lengthOfEach_pos)
  have "(quarterLength eRemain - lengthOfEach self) / lengthOfEach self
          = quarterLength eRemain / lengthOfEach self - 1"
    using pos by (simp add: diff_divide_distrib)
  then have step: "\<lceil>(quarterLength eRemain - lengthOfEach self) / lengthOfEach self\<rceil>
                     = \<lceil>quarterLength eRemain / lengthOfEach self\<rceil> - 1"
    by simp
  have "1 < quarterLength eRemain / lengthOfEach self"
    using more pos by (simp add: less_divide_eq)
  then have "0 < \<lceil>quarterLength eRemain / lengthOfEach self\<rceil>"
    by linarith
  with step
  show "((self, snd (splitAtQuarterLength (lengthOfEach self) eRemain),
          objsConverted @ [fst (splitAtQuarterLength (lengthOfEach self) eRemain)]),
         (self, eRemain, objsConverted))
        \<in> measure (\<lambda>(self, eRemain, objsConverted).
                     nat \<lceil>quarterLength eRemain / lengthOfEach self\<rceil>)"
    by (simp add: splitAtQuarterLength_def)
qed

text \<open>\<^verbatim>\<open>Tremolo.realize\<close>. No line of it looks at a duration of zero.\<close>

definition Tremolo_realize ::
    "Tremolo \<Rightarrow> Note \<Rightarrow> KeySignature option \<Rightarrow> bool \<Rightarrow> error + (realization \<times> Note)" where
  "Tremolo_realize self srcObj keySig inPlace =
     (let eRemain =
            (if containsExpression (TremoloExpr self) (expressions srcObj)
             then srcObj\<lparr>expressions :=
                           removeExpression (TremoloExpr self) (expressions srcObj)\<rparr>
             else srcObj)
      in Inr ((tremoloSplit self eRemain [], None, []),
              if inPlace then eRemain else srcObj))"

section \<open>Other configuration: rehearsal marks and arpeggio marks\<close>

text \<open>\<^verbatim>\<open>RehearsalMark.__init__\<close>, as far as the numbering goes (\<open>None\<close> is Python's
  \<^verbatim>\<open>None\<close>); the result is the stored numbering.\<close>

definition numberingMessage :: string where
  \<open>numberingMessage = ''Numbering must be "alphabetical", "roman", "number", or None''\<close>

definition RehearsalMark_init :: "string option \<Rightarrow> error + string option" where
  "RehearsalMark_init numbering =
     (if numbering \<notin> {Some ''alphabetical'', Some ''roman'', Some ''number'', None}
      then Inl (ExpressionException numberingMessage)
      else Inr numbering)"

text \<open>The message of the \<^verbatim>\<open>ValueError\<close> of the two arpeggio marks.\<close>

definition arpeggioTypeMessage :: "string \<Rightarrow> string" where
  \<open>arpeggioTypeMessage arpeggioType =
     ''Arpeggio type must be "normal", "up", "down", or "non-arpeggio", ''
       @ ''not '' @ pyRepr arpeggioType @ ''.''\<close>

text \<open>\<^verbatim>\<open>ArpeggioMark.__init__\<close>; the result is the stored type. A type that is
  \<^verbatim>\<open>None\<close> or the empty string is replaced by \<^verbatim>\<open>'normal'\<close>.\<close>

definition ArpeggioMark_init :: "string option \<Rightarrow> error + string" where
  "ArpeggioMark_init arpeggioType =
     (let arpeggioType' =
            (case arpeggioType of
               None \<Rightarrow> ''normal''
             | Some a \<Rightarrow> if a = [] then ''normal'' else a)
      in if arpeggioType' \<notin> {''normal'', ''up'', ''down'', ''non-arpeggio''}
         then Inl (ValueError (arpeggioTypeMessage arpeggioType'))
         else Inr arpeggioType')"

text \<open>\<^verbatim>\<open>ArpeggioMarkSpanner.__init__\<close>, whose type is a string with the default
  \<^verbatim>\<open>'normal'\<close>.\<close>

definition ArpeggioMarkSpanner_init :: "string \<Rightarrow> error + string" where
  "ArpeggioMarkSpanner_init arpeggioType =
     (if arpeggioType \<notin> {''normal'', ''up'', ''down'', ''non-arpeggio''}
      then Inl (ValueError (arpeggioTypeMessage arpeggioType))
      else Inr arpeggioType)"

section \<open>The realization driver\<close>

text \<open>\<^verbatim>\<open>hasattr(thisExpression, 'realize')\<close>, and the method that the class of the
  expression provides.\<close>

fun hasRealize :: "expression \<Rightarrow> bool" where
  "hasRealize (OtherExpr className) = False"
| "hasRealize e = True"

fun realize ::
    "division \<Rightarrow> expression \<Rightarrow> Note \<Rightarrow> KeySignature option \<Rightarrow> bool
       \<Rightarrow> error + (realization \<times> Note)" where
  "realize trueDiv (MordentExpr self) srcObj keySig inPlace =
     Mordent_realize self srcObj keySig inPlace"
| "realize trueDiv (TrillExpr self) srcObj keySig inPlace =
     Trill_realize trueDiv self srcObj keySig inPlace"
| "realize trueDiv (TurnExpr self) srcObj keySig inPlace =
     Turn_realize self srcObj keySig inPlace"
| "realize trueDiv (AppoggiaturaExpr self) srcObj keySig inPlace =
     Appoggiatura_realize self srcObj keySig inPlace"
| "realize trueDiv (TremoloExpr self) srcObj keySig inPlace =
     Tremolo_realize self srcObj keySig inPlace"
| "realize trueDiv (OrnamentExpr className) srcObj keySig inPlace =
     Ornament_realize srcObj keySig inPlace"
| "realize trueDiv (OtherExpr className) srcObj keySig inPlace =
     Inl (AttributeError ''realize'')"

text \<open>
  The loop \<^verbatim>\<open>while loopBuster\<close> of \<^verbatim>\<open>realizeOrnaments\<close>, by recursion on
  \<^verbatim>\<open>loopBuster\<close>. The state of the loop is the remaining event \<^verbatim>\<open>srcObject\<close>
  and the two accumulators; the result is their state when the loop ends, with
  \<open>None\<close> for an event that an ornament has consumed.
\<close>

fun realizeLoop ::
    "division \<Rightarrow> nat \<Rightarrow> KeySignature option \<Rightarrow> Note \<Rightarrow> Note list \<Rightarrow> Note list
       \<Rightarrow> error + (Note list \<times> Note option \<times> Note list)" where
  "realizeLoop trueDiv 0 keySig srcObject preExpandList postExpandList =
     Inr (preExpandList, Some srcObject, postExpandList)"
| "realizeLoop trueDiv (Suc loopBuster) keySig srcObject preExpandList postExpandList =
     (case expressions srcObject of
        [] \<Rightarrow> Inl IndexError
      | thisExpression # others \<Rightarrow>
          if hasRealize thisExpression
          then
            bindE (realize trueDiv thisExpression srcObject keySig False)
              (\<lambda>((preExpand, newSrcObject, postExpand), srcObject').
                 case newSrcObject of
                   None \<Rightarrow> Inr (preExpandList @ preExpand, None, postExpandList @ postExpand)
                 | Some new \<Rightarrow>
                     let new' = new\<lparr>expressions := drop 1 (expressions srcObject')\<rparr>
                     in if expressions new' = []
                        then Inr (preExpandList @ preExpand, Some new',
                                  postExpandList @ postExpand)
                        else realizeLoop trueDiv loopBuster keySig new'
                               (preExpandList @ preExpand) (postExpandList @ postExpand))
          else
            let srcObject' = srcObject\<lparr>expressions := drop 1 (expressions srcObject)\<rparr>
            in if expressions srcObject' = []
               then Inr (preExpandList, Some srcObject', postExpandList)
               else realizeLoop trueDiv loopBuster keySig srcObject' preExpandList postExpandList)"

text \<open>\<^verbatim>\<open>realizeOrnaments\<close>; every note has an \<^verbatim>\<open>expressions\<close> attribute.\<close>

definition realizeOrnaments ::
    "division \<Rightarrow> Note \<Rightarrow> KeySignature option \<Rightarrow> error + Note list" where
  "realizeOrnaments trueDiv srcObj keySig =
     (if expressions srcObj = [] then Inr [srcObj]
      else
        bindE (realizeLoop trueDiv 100 keySig srcObj [] [])
          (\<lambda>(preExpandList, srcObject, postExpandList).
             Inr (preExpandList
                  @ (case srcObject of None \<Rightarrow> [] | Some s \<Rightarrow> [s])
                  @ postExpandList)))"

text \<open>
  The driver as the specification words it, to be compared with the loop above. Given an
  event with an ordered list of attached ornaments, it takes the first ornament. If the
  ornament has a \<^verbatim>\<open>realize\<close>, it is called on the remaining event, its pre-list and
  its post-list are collected, and the remaining event becomes the main event that it
  returns, with the rest of the list of ornaments; if that main event is \<^verbatim>\<open>None\<close>, the
  driver stops. If the ornament has no \<^verbatim>\<open>realize\<close>, it is dropped from the list. The
  driver stops when the remaining event has no more ornaments, when a main event is
  \<^verbatim>\<open>None\<close>, or at the iteration ceiling. The result is the collected pre-lists in the
  order of the ornaments, the remaining event or \<^verbatim>\<open>None\<close>, and the collected
  post-lists in the order of the ornaments.
\<close>

fun driverSpec ::
    "division \<Rightarrow> nat \<Rightarrow> KeySignature option \<Rightarrow> Note
       \<Rightarrow> error + (Note list \<times> Note option \<times> Note list)" where
  "driverSpec trueDiv 0 keySig event = Inr ([], Some event, [])"
| "driverSpec trueDiv (Suc limit) keySig event =
     (case expressions event of
        [] \<Rightarrow> Inr ([], Some event, [])
      | ornament # rest \<Rightarrow>
          if hasRealize ornament
          then
            (case realize trueDiv ornament event keySig False of
               Inl err \<Rightarrow> Inl err
             | Inr ((preList, None, postList), event') \<Rightarrow> Inr (preList, None, postList)
             | Inr ((preList, Some mainEvent, postList), event') \<Rightarrow>
                 (case driverSpec trueDiv limit keySig (mainEvent\<lparr>expressions := rest\<rparr>) of
                    Inl err \<Rightarrow> Inl err
                  | Inr (preLists, remaining, postLists) \<Rightarrow>
                      Inr (preList @ preLists, remaining, postList @ postLists)))
          else driverSpec trueDiv limit keySig (event\<lparr>expressions := rest\<rparr>))"

text \<open>The final result of the specification: the pre-lists, then the remaining event if
  it is not \<^verbatim>\<open>None\<close>, then the post-lists.\<close>

definition driverSpecResult ::
    "division \<Rightarrow> Note \<Rightarrow> KeySignature option \<Rightarrow> error + Note list" where
  "driverSpecResult trueDiv event keySig =
     (case driverSpec trueDiv 100 keySig event of
        Inl err \<Rightarrow> Inl err
      | Inr (preLists, remaining, postLists) \<Rightarrow>
          Inr (preLists @ (case remaining of None \<Rightarrow> [] | Some e \<Rightarrow> [e]) @ postLists))"

section \<open>Example events and ornaments\<close>

text \<open>The values at which the properties below are evaluated.\<close>

definition pitchOf :: "stepName \<Rightarrow> int \<Rightarrow> Pitch" where
  "pitchOf s oct = \<lparr>step = s, octave = oct, accidental = None\<rparr>"

definition noteOf :: "Pitch \<Rightarrow> rat \<Rightarrow> expression list \<Rightarrow> KeySignature option \<Rightarrow> Note" where
  "noteOf p ql exprs ks =
     \<lparr>pitch = Some p, quarterLength = ql, expressions = exprs, contextKeySig = ks\<rparr>"

text \<open>An ornament of each family as its constructor leaves it.\<close>

definition newMordent :: "mordentClass \<Rightarrow> Mordent" where
  "newMordent c = \<lparr>mordentClass = c, mordentAccidentalName = [],
                   mordentQuarterLength = 1/8, mordentAutoScale = True\<rparr>"

definition newTrill :: Trill where
  "newTrill = \<lparr>trillClass = TrillC, trillAccidentalName = [], nachschlag = False,
               trillQuarterLength = 1/8, trillAutoScale = True\<rparr>"

definition newAppoggiatura :: Appoggiatura where
  "newAppoggiatura =
     \<lparr>appoggiaturaClass = AppoggiaturaC, appoggiaturaDirection = Down,
      appoggiaturaSize = Some majorSecondUp\<rparr>"

text \<open>A delayed turn with turn notes of a triplet thirty-second note.\<close>

definition delayedTurn :: Turn where
  "delayedTurn = (Turn_init False (DelayQL (1/4)) [] [])\<lparr>turnQuarterLength := 1/12\<rparr>"

text \<open>An inverted turn that is delayed by a thirty-second note, and a list of ornaments:
  a mordent, a fermata and two turns.\<close>

definition invertedTurn :: Turn where
  "invertedTurn = Turn_init True (DelayQL (1/8)) [] []"

definition ornaments :: "expression list" where
  "ornaments = [MordentExpr (newMordent MordentC), OtherExpr ''Fermata'',
                TurnExpr delayedTurn, TurnExpr invertedTurn]"

text \<open>The total duration of a list of notes.\<close>

definition totalQuarterLength :: "Note list \<Rightarrow> rat" where
  "totalQuarterLength notes = sum_list (map quarterLength notes)"

text \<open>The domain error of an event without duration.\<close>

definition noDuration :: error where
  "noDuration = ExpressionException ''Cannot steal time from an object with no duration''"

section \<open>Lemmas about the helpers\<close>

lemma bindE_Inr:
  "bindE m f = Inr y \<longleftrightarrow> (\<exists>x. m = Inr x \<and> f x = Inr y)"
  by (cases m) (simp_all add: bindE_def)

lemma quarterLength_setAccidentalFromKeySig [simp]:
  "quarterLength (setAccidentalFromKeySig ks n) = quarterLength n"
  by (simp add: setAccidentalFromKeySig_def)

lemma quarterLength_noteTranspose [simp]:
  "quarterLength (noteTranspose i n) = quarterLength n"
  by (simp add: noteTranspose_def)

lemma length_fillAccidentals [simp]:
  "length (fillAccidentals noteNums ks notes) = length notes"
  by (simp add: fillAccidentals_def)

lemma quarterLength_fillAccidentals [simp]:
  "map quarterLength (fillAccidentals noteNums ks notes) = map quarterLength notes"
  by (rule nth_equalityI) (simp_all add: fillAccidentals_def)

lemma fillListOfRealizedNotes_lengths:
  assumes "fillListOfRealizedNotes selfQL srcObj fillObjects i (Some useQL) = Inr notes"
  shows "map quarterLength notes = map quarterLength fillObjects @ [useQL, useQL]"
  using assms by (auto simp: fillListOfRealizedNotes_def Let_def split: if_splits)

subsection \<open>What a mordent that is realized has computed\<close>

lemma Mordent_realize_Inr:
  assumes "Mordent_realize self srcObj keySig inPlace
             = Inr ((preNotes, mainNote, postNotes), srcObj')"
  obtains use_ql transposeInterval mordNotes remainderNote where
    "Mordent_useQL self (quarterLength srcObj) = Inr use_ql"
    "Mordent_getSize self srcObj (Some (keySigOrContext keySig srcObj)) = Inr transposeInterval"
    "fillListOfRealizedNotes (mordentQuarterLength self) srcObj [] transposeInterval
       (Some use_ql) = Inr mordNotes"
    "preNotes = fillAccidentals [2] (keySigOrContext keySig srcObj) mordNotes"
    "remainderNote = srcObj\<lparr>quarterLength := quarterLength srcObj - 2 * use_ql,
                      expressions := popAt (indexOf (MordentExpr self) (expressions srcObj))
                                       (expressions srcObj)\<rparr>"
    "mainNote = Some remainderNote"
    "postNotes = []"
    "srcObj' = (if inPlace then remainderNote else srcObj)"
    "quarterLength srcObj \<noteq> 0"
    "isUpOrDown (mordentDirection (mordentClass self))"
    "pitch srcObj \<noteq> None"
proof -
  have checks: "isUpOrDown (mordentDirection (mordentClass self))
                \<and> quarterLength srcObj \<noteq> 0 \<and> pitch srcObj \<noteq> None"
    using assms by (simp add: Mordent_realize_def split: if_splits)
  then have dir: "isUpOrDown (mordentDirection (mordentClass self))"
    and nz: "quarterLength srcObj \<noteq> 0" and pitched: "pitch srcObj \<noteq> None"
    by simp_all
  from assms dir nz pitched obtain use_ql transposeInterval mordNotes where
    a: "Mordent_useQL self (quarterLength srcObj) = Inr use_ql"
    and b: "Mordent_getSize self srcObj (Some (keySigOrContext keySig srcObj))
              = Inr transposeInterval"
    and c: "fillListOfRealizedNotes (mordentQuarterLength self) srcObj [] transposeInterval
              (Some use_ql) = Inr mordNotes"
    and d: "Inr ((preNotes, mainNote, postNotes), srcObj')
              = (Inr ((fillAccidentals [2] (keySigOrContext keySig srcObj) mordNotes,
                  Some (srcObj\<lparr>quarterLength := quarterLength srcObj - 2 * use_ql,
                      expressions := popAt (indexOf (MordentExpr self) (expressions srcObj))
                                       (expressions srcObj)\<rparr>), []),
                  if inPlace
                  then srcObj\<lparr>quarterLength := quarterLength srcObj - 2 * use_ql,
                      expressions := popAt (indexOf (MordentExpr self) (expressions srcObj))
                                       (expressions srcObj)\<rparr>
                  else srcObj) :: error + (realization \<times> Note))"
    by (simp add: Mordent_realize_def Let_def bindE_Inr) blast
  show thesis
    using that [OF a b c _ refl _ _ _ nz dir pitched] d by simp
qed


subsection \<open>What a turn that is realized has computed\<close>

lemma quarterLength_assignQuarterLength:
  "quarterLength (assignQuarterLength q n) = (if q = 0 then quarterLength n else q)"
  by (simp add: assignQuarterLength_def)

lemma assignQuarterLength_nonzero:
  "q \<noteq> 0 \<Longrightarrow> assignQuarterLength q n = n\<lparr>quarterLength := q\<rparr>"
  by (simp add: assignQuarterLength_def)

lemma quarterLength_turnNotesOf:
  "map quarterLength (turnNotesOf srcObj useQL fourthNoteQL i1 i2)
     = map (\<lambda>q. if q = 0 then quarterLength srcObj else q)
         [useQL, useQL, useQL, case fourthNoteQL of None \<Rightarrow> useQL | Some q \<Rightarrow> q]"
  by (simp add: turnNotesOf_def Let_def quarterLength_assignQuarterLength)

lemma Turn_realizeFrom_Inr:
  assumes "Turn_realizeFrom self srcObj keySig inPlace rem
             = Inr ((preNotes, mainNote, postNotes), srcObj')"
  obtains useQL fourthNoteQL i1 i2 where
    "turnNoteLengths self (quarterLength srcObj - rem) = Inr (useQL, fourthNoteQL)"
    "Turn_getSize self srcObj keySig (if \<not> isInverted self then ''upper'' else ''lower'')
       = Inr i1"
    "Turn_getSize self srcObj keySig (if \<not> isInverted self then ''lower'' else ''upper'')
       = Inr i2"
    "preNotes = []"
    "postNotes = turnNotesOf srcObj useQL fourthNoteQL i1 i2"
    "mainNote =
       (if rem = 0 then None
        else Some (srcObj\<lparr>quarterLength := rem,
                     expressions := popAt (indexOf (TurnExpr self) (expressions srcObj))
                                      (expressions srcObj)\<rparr>))"
    "srcObj' =
       (if inPlace \<and> rem \<noteq> 0
        then srcObj\<lparr>quarterLength := rem,
                     expressions := popAt (indexOf (TurnExpr self) (expressions srcObj))
                                      (expressions srcObj)\<rparr>
        else srcObj)"
proof -
  from assms obtain useQL fourthNoteQL i1 i2 where
    a: "turnNoteLengths self (quarterLength srcObj - rem) = Inr (useQL, fourthNoteQL)"
    and b: "Turn_getSize self srcObj keySig
              (if \<not> isInverted self then ''upper'' else ''lower'') = Inr i1"
    and c: "Turn_getSize self srcObj keySig
              (if \<not> isInverted self then ''lower'' else ''upper'') = Inr i2"
    and d: "(if rem = 0
             then Inr (([], None, turnNotesOf srcObj useQL fourthNoteQL i1 i2), srcObj)
             else Inr (([], Some ((assignQuarterLength rem srcObj)
                               \<lparr>expressions := popAt (indexOf (TurnExpr self) (expressions srcObj))
                                                (expressions srcObj)\<rparr>),
                        turnNotesOf srcObj useQL fourthNoteQL i1 i2),
                       if inPlace
                       then (assignQuarterLength rem srcObj)
                               \<lparr>expressions := popAt (indexOf (TurnExpr self) (expressions srcObj))
                                                (expressions srcObj)\<rparr>
                       else srcObj))
            = (Inr ((preNotes, mainNote, postNotes), srcObj') :: error + (realization \<times> Note))"
    by (simp add: Turn_realizeFrom_def Let_def bindE_Inr split: prod.splits cong: if_cong) blast
  show thesis
  proof (cases "rem = 0")
    case True
    with d have e: "preNotes = [] \<and> mainNote = None
                    \<and> postNotes = turnNotesOf srcObj useQL fourthNoteQL i1 i2
                    \<and> srcObj' = srcObj"
      by auto
    show ?thesis
      by (rule that [OF a b c]) (use e True in simp_all)
  next
    case False
    with d have e: "preNotes = []
          \<and> mainNote = Some (srcObj\<lparr>quarterLength := rem,
                               expressions := popAt (indexOf (TurnExpr self) (expressions srcObj))
                                                (expressions srcObj)\<rparr>)
          \<and> postNotes = turnNotesOf srcObj useQL fourthNoteQL i1 i2
          \<and> srcObj' = (if inPlace
                       then srcObj\<lparr>quarterLength := rem,
                               expressions := popAt (indexOf (TurnExpr self) (expressions srcObj))
                                                (expressions srcObj)\<rparr>
                       else srcObj)"
      by (auto simp: assignQuarterLength_nonzero)
    show ?thesis
      by (rule that [OF a b c]) (use e False in simp_all)
  qed
qed

lemma Turn_realize_Inr:
  assumes "Turn_realize self srcObj keySig inPlace
             = Inr ((preNotes, mainNote, postNotes), srcObj')"
  obtains rem where
    "turnRemainderDuration self (quarterLength srcObj) = Some rem"
    "Turn_realizeFrom self srcObj keySig inPlace rem
       = Inr ((preNotes, mainNote, postNotes), srcObj')"
    "quarterLength srcObj \<noteq> 0"
    "pitch srcObj \<noteq> None"
proof -
  have checks: "pitch srcObj \<noteq> None \<and> quarterLength srcObj \<noteq> 0"
    using assms by (simp add: Turn_realize_def split: if_splits)
  then have pitched: "pitch srcObj \<noteq> None" and nz: "quarterLength srcObj \<noteq> 0"
    by simp_all
  show thesis
  proof (cases "turnRemainderDuration self (quarterLength srcObj)")
    case None
    with assms pitched nz have False
      by (simp add: Turn_realize_def bindE_def split: sum.splits)
    then show ?thesis ..
  next
    case (Some rem)
    with assms pitched nz have "Turn_realizeFrom self srcObj keySig inPlace rem
       = Inr ((preNotes, mainNote, postNotes), srcObj')"
      by (simp add: Turn_realize_def)
    with Some show ?thesis
      by (rule that [OF _ _ nz pitched])
  qed
qed

lemma turnNoteLengths_Inr:
  assumes "turnNoteLengths self turnDuration = Inr (useQL, fourthNoteQL)"
  shows "useQL + useQL + useQL + (case fourthNoteQL of None \<Rightarrow> useQL | Some q \<Rightarrow> q)
           = turnDuration"
    and "4 * turnQuarterLength self < turnDuration \<Longrightarrow>
           useQL = turnQuarterLength self
           \<and> fourthNoteQL = Some (turnDuration - 3 * turnQuarterLength self)"
    and "turnDuration < 4 * turnQuarterLength self \<Longrightarrow>
           useQL = turnDuration / 4 \<and> fourthNoteQL = None"
    and "turnDuration = 4 * turnQuarterLength self \<Longrightarrow>
           useQL = turnQuarterLength self \<and> fourthNoteQL = None"
  using assms by (auto simp: turnNoteLengths_def split: if_splits)

lemma turnNoteLengths_pos:
  assumes "turnNoteLengths self turnDuration = Inr (useQL, fourthNoteQL)"
    and "0 < turnDuration" and "0 < turnQuarterLength self"
  shows "0 < useQL" and "0 < (case fourthNoteQL of None \<Rightarrow> useQL | Some q \<Rightarrow> q)"
  using assms by (auto simp: turnNoteLengths_def split: if_splits)

subsection \<open>What a trill that is realized has computed\<close>

lemma fillTrillNotes_lengths:
  "fillTrillNotes k selfQL srcObj acc i useQL = Inr notes \<Longrightarrow>
     map quarterLength notes = map quarterLength acc @ replicate (2 * k) useQL"
proof (induction k arbitrary: acc)
  case 0
  then show ?case by simp
next
  case (Suc k)
  from Suc.prems obtain acc' where
    a: "fillListOfRealizedNotes selfQL srcObj acc i (Some useQL) = Inr acc'"
    and b: "fillTrillNotes k selfQL srcObj acc' i useQL = Inr notes"
    by (auto simp: bindE_Inr)
  from Suc.IH [OF b] fillListOfRealizedNotes_lengths [OF a]
  show ?case by (simp add: replicate_append_same)
qed

lemma quarterLength_correctTrillNote [simp]:
  "quarterLength (correctTrillNote ks srcObj n) = quarterLength n"
  by (simp add: correctTrillNote_def)

lemma Trill_realize_Inr:
  assumes "Trill_realize trueDiv self srcObj keySig inPlace
             = Inr ((preNotes, mainNote, postNotes), srcObj')"
  obtains useQL numberOfNotes where
    "Trill_useQL self (quarterLength srcObj) = Inr useQL"
    "numberOfTrillNotes trueDiv self (quarterLength srcObj) useQL = Inr numberOfNotes"
    "map quarterLength preNotes
       = replicate (2 * nat (pyInt (trueDiv (of_int numberOfNotes) 2))) useQL"
    "mainNote = None"
    "map quarterLength postNotes = (if nachschlag self then [useQL, useQL] else [])"
    "srcObj' =
       (if inPlace \<and> containsExpression (TrillExpr self) (expressions srcObj)
        then srcObj\<lparr>expressions := removeExpression (TrillExpr self) (expressions srcObj)\<rparr>
        else srcObj)"
    "pitch srcObj \<noteq> None"
proof -
  have pitched: "pitch srcObj \<noteq> None"
    using assms by (simp add: Trill_realize_def split: if_splits)
  from assms pitched obtain useQL transposeInterval numberOfNotes trillNotes where
    a: "Trill_useQL self (quarterLength srcObj) = Inr useQL"
    and b: "numberOfTrillNotes trueDiv self (quarterLength srcObj) useQL = Inr numberOfNotes"
    and c: "fillTrillNotes (nat (pyInt (trueDiv (of_int numberOfNotes) 2)))
              (trillQuarterLength self) srcObj [] transposeInterval useQL = Inr trillNotes"
    and d: "preNotes = (if trillSetAccidentalFromKeySig self
                    then map (correctTrillNote (keySigOrContext keySig srcObj) srcObj) trillNotes
                    else trillNotes)"
    and e: "mainNote = None"
    and f: "map quarterLength postNotes = (if nachschlag self then [useQL, useQL] else [])"
    and g: "srcObj' =
       (if inPlace \<and> containsExpression (TrillExpr self) (expressions srcObj)
        then srcObj\<lparr>expressions := removeExpression (TrillExpr self) (expressions srcObj)\<rparr>
        else srcObj)"
    by (simp add: Trill_realize_def Let_def bindE_Inr split: if_splits) force+
  from fillTrillNotes_lengths [OF c] d
  have h: "map quarterLength preNotes
       = replicate (2 * nat (pyInt (trueDiv (of_int numberOfNotes) 2))) useQL"
    by (simp add: comp_def)
  show thesis
    by (rule that [OF a b h e f g pitched])
qed

text \<open>Arithmetic of the count.\<close>

lemma pyInt_nonneg: "0 \<le> x \<Longrightarrow> pyInt x = \<lfloor>x\<rfloor>"
  by (simp add: pyInt_def)

lemma pyInt_half: "pyInt (of_int n / 2) = (if 0 \<le> n then n div 2 else - ((- n) div 2))"
proof (cases "0 \<le> n")
  case True
  then have "pyInt (of_int n / 2) = \<lfloor>(of_int n :: rat) / 2\<rfloor>"
    by (simp add: pyInt_def)
  also have "\<dots> = n div 2"
    using floor_divide_of_int_eq [of n 2, where ?'a = rat] by simp
  finally show ?thesis using True by simp
next
  case False
  then have "pyInt (of_int n / 2) = \<lceil>(of_int n :: rat) / 2\<rceil>"
    by (simp add: pyInt_def)
  also have "\<dots> = - \<lfloor>(of_int (- n) :: rat) / 2\<rfloor>"
    by (simp add: ceiling_def)
  also have "\<dots> = - ((- n) div 2)"
    using floor_divide_of_int_eq [of "- n" 2, where ?'a = rat] by simp
  finally show ?thesis using False by simp
qed

lemma Trill_useQL_Inr:
  assumes "Trill_useQL self d = Inr u" and "0 < d" and "0 < trillQuarterLength self"
  shows "0 < u" and "2 * u \<le> d" and "nachschlag self \<Longrightarrow> 4 * u \<le> d"
    and "d < 2 * trillQuarterLength self \<or> (nachschlag self \<and> d < 4 * trillQuarterLength self)
         \<Longrightarrow> d = (if nachschlag self then 4 else 2) * u"
    and "\<not> (d < 2 * trillQuarterLength self
            \<or> (nachschlag self \<and> d < 4 * trillQuarterLength self))
         \<Longrightarrow> u = trillQuarterLength self"
  using assms by (auto simp: Trill_useQL_def Let_def split: if_splits)

lemma trill_count:
  fixes d u :: rat
  assumes u: "0 < u" and two: "2 * u \<le> d" and four: "nach \<Longrightarrow> 4 * u \<le> d"
  defines "n \<equiv> pyInt (d / u) - (if nach then 2 else 0)"
  defines "c \<equiv> 2 * nat (pyInt (of_int n / 2)) + (if nach then 2 else 0)"
  shows "int c = 2 * (\<lfloor>d / u\<rfloor> div 2)"
    and "of_nat c * u \<le> d"
    and "d - of_nat c * u < 2 * u"
    and "of_nat c * u = d \<longleftrightarrow> (\<exists>k::int. d = of_int (2 * k) * u)"
proof -
  let ?F = "\<lfloor>d / u\<rfloor>"
  have du: "2 \<le> d / u" using u two by (simp add: le_divide_eq)
  then have F2: "2 \<le> ?F" by linarith
  have F4: "nach \<Longrightarrow> 4 \<le> ?F"
  proof -
    assume nach
    then have "4 \<le> d / u" using u four by (simp add: le_divide_eq)
    then show "4 \<le> ?F" by linarith
  qed
  have nF: "n = ?F - (if nach then 2 else 0)"
    using du by (simp add: n_def pyInt_def)
  have n0: "0 \<le> n" using F2 F4 nF by (cases nach) simp_all
  have "int c = 2 * (n div 2) + (if nach then 2 else 0)"
    using n0 by (simp add: c_def pyInt_half)
  also have "\<dots> = 2 * (?F div 2)"
  proof (cases nach)
    case True
    have "2 * ((?F - 2) div 2) + 2 = 2 * (?F div 2)" by presburger
    with True nF show ?thesis by simp
  next
    case False
    with nF show ?thesis by simp
  qed
  finally show c: "int c = 2 * (?F div 2)" .
  have cr: "(of_nat c :: rat) = of_int (2 * (?F div 2))"
    using c by (metis of_int_of_nat_eq)
  have le: "2 * (?F div 2) \<le> ?F" by presburger
  have "(of_int (2 * (?F div 2)) :: rat) \<le> of_int ?F"
    using le by (simp only: of_int_le_iff)
  also have "\<dots> \<le> d / u" by simp
  finally have "(of_nat c :: rat) \<le> d / u" by (simp add: cr)
  then show "of_nat c * u \<le> d" using u by (simp add: le_divide_eq)
  have lt: "?F < 2 * (?F div 2) + 2" by presburger
  have "d / u < of_int (?F + 1)" by linarith
  also have "\<dots> \<le> of_int (2 * (?F div 2) + 2)"
    using lt by (simp only: of_int_le_iff)
  finally have "d / u < of_nat c + 2" by (simp add: cr)
  then have "d < (of_nat c + 2) * u" using u by (simp add: divide_less_eq)
  then show "d - of_nat c * u < 2 * u" by (simp add: algebra_simps)
  show "of_nat c * u = d \<longleftrightarrow> (\<exists>k::int. d = of_int (2 * k) * u)"
  proof
    assume "of_nat c * u = d"
    then have "d = of_int (2 * (?F div 2)) * u" by (simp add: cr)
    then show "\<exists>k::int. d = of_int (2 * k) * u" by blast
  next
    assume "\<exists>k::int. d = of_int (2 * k) * u"
    then obtain k :: int where k: "d = of_int (2 * k) * u" by blast
    then have "d / u = of_int (2 * k)" using u by simp
    then have "?F = 2 * k" by (simp only: floor_of_int)
    then have "2 * (?F div 2) = 2 * k" by simp
    then show "of_nat c * u = d" using k by (simp only: cr)
  qed
qed

subsection \<open>Removing an ornament from an expression list; the appoggiatura\<close>


lemma removeExpression_head [simp]: "removeExpression x (x # xs) = xs"
  by (simp add: removeExpression_def popAt_def sameExpression_def)

lemma Appoggiatura_realize_Inr:
  assumes "Appoggiatura_realize self srcObj keySig inPlace
             = Inr ((preNotes, mainNote, postNotes), srcObj')"
  obtains theSize where
    "appoggiaturaSize self = Some theSize"
    "map quarterLength preNotes = [quarterLength srcObj / 2]"
    "mainNote = Some (srcObj\<lparr>quarterLength := quarterLength srcObj / 2,
                 expressions := popAt (indexOf (AppoggiaturaExpr self) (expressions srcObj))
                                  (expressions srcObj)\<rparr>)"
    "postNotes = []"
    "srcObj' = (if inPlace
                then srcObj\<lparr>quarterLength := quarterLength srcObj / 2,
                       expressions := popAt (indexOf (AppoggiaturaExpr self) (expressions srcObj))
                                        (expressions srcObj)\<rparr>
                else srcObj)"
    "quarterLength srcObj \<noteq> 0"
proof -
  from assms obtain theSize where a: "appoggiaturaSize self = Some theSize"
    by (cases "appoggiaturaSize self") (simp_all add: Appoggiatura_realize_def split: if_splits)
  have checks: "isUpOrDown (appoggiaturaDirection self) \<and> quarterLength srcObj \<noteq> 0
                  \<and> pitch srcObj \<noteq> None"
    using assms a by (simp add: Appoggiatura_realize_def split: if_splits)
  have e: "map quarterLength preNotes = [quarterLength srcObj / 2]
        \<and> mainNote = Some (srcObj\<lparr>quarterLength := quarterLength srcObj / 2,
                 expressions := popAt (indexOf (AppoggiaturaExpr self) (expressions srcObj))
                                  (expressions srcObj)\<rparr>)
        \<and> postNotes = []
        \<and> srcObj' = (if inPlace
                then srcObj\<lparr>quarterLength := quarterLength srcObj / 2,
                       expressions := popAt (indexOf (AppoggiaturaExpr self) (expressions srcObj))
                                        (expressions srcObj)\<rparr>
                else srcObj)"
    using assms a checks by (auto simp: Appoggiatura_realize_def Let_def)
  show thesis
    by (rule that [OF a]) (use e checks in simp_all)
qed

lemma flat_valid: "acceptAccidentalName ''flat'' = ''flat''"
  by (simp add: acceptAccidentalName_def isValidAccidentalName_def accidentalNameToAlter_def
        standardizeAccidentalName_def)

subsection \<open>The loop of the driver\<close>

text \<open>A call with \<^verbatim>\<open>inPlace=False\<close> leaves the source event as it was.\<close>

lemma realize_out_of_place:
  assumes "realize trueDiv e srcObj keySig False
             = Inr ((preNotes, mainNote, postNotes), srcObj')"
  shows "srcObj' = srcObj"
proof (cases e)
  case (MordentExpr self)
  with assms have "Mordent_realize self srcObj keySig False
                     = Inr ((preNotes, mainNote, postNotes), srcObj')"
    by simp
  then show ?thesis by (rule Mordent_realize_Inr) simp
next
  case (TrillExpr self)
  with assms have "Trill_realize trueDiv self srcObj keySig False
                     = Inr ((preNotes, mainNote, postNotes), srcObj')"
    by simp
  then show ?thesis by (rule Trill_realize_Inr) simp
next
  case (TurnExpr self)
  with assms have "Turn_realize self srcObj keySig False
                     = Inr ((preNotes, mainNote, postNotes), srcObj')"
    by simp
  then obtain rem where "Turn_realizeFrom self srcObj keySig False rem
                     = Inr ((preNotes, mainNote, postNotes), srcObj')"
    by (rule Turn_realize_Inr)
  then show ?thesis by (rule Turn_realizeFrom_Inr) simp
next
  case (AppoggiaturaExpr self)
  with assms have "Appoggiatura_realize self srcObj keySig False
                     = Inr ((preNotes, mainNote, postNotes), srcObj')"
    by simp
  then show ?thesis by (rule Appoggiatura_realize_Inr) simp
next
  case (TremoloExpr self)
  with assms show ?thesis by (auto simp: Tremolo_realize_def Let_def)
next
  case (OrnamentExpr className)
  with assms show ?thesis by (auto simp: Ornament_realize_def)
next
  case (OtherExpr className)
  with assms show ?thesis by simp
qed

text \<open>The specification on an event without ornaments, and what it leaves on the
  remaining event.\<close>

lemma driverSpec_no_expressions:
  "expressions event = [] \<Longrightarrow> driverSpec trueDiv n keySig event = Inr ([], Some event, [])"
  by (cases n) simp_all

lemma driverSpec_remaining:
  "driverSpec trueDiv n keySig event = Inr (preLists, Some remaining, postLists) \<Longrightarrow>
   expressions remaining = drop n (expressions event)"
proof (induction n arbitrary: event preLists postLists)
  case 0
  then show ?case by simp
next
  case (Suc n)
  show ?case
  proof (cases "expressions event")
    case Nil
    with Suc.prems show ?thesis by simp
  next
    case (Cons ornament rest)
    show ?thesis
    proof (cases "hasRealize ornament")
      case False
      with Suc.prems Cons
      have "driverSpec trueDiv n keySig (event\<lparr>expressions := rest\<rparr>)
              = Inr (preLists, Some remaining, postLists)"
        by simp
      from Suc.IH [OF this] Cons show ?thesis by simp
    next
      case True
      from Suc.prems Cons True obtain preList mainEvent postList event' where
        r: "realize trueDiv ornament event keySig False
              = Inr ((preList, Some mainEvent, postList), event')"
        by (auto split: sum.splits option.splits)
      from Suc.prems Cons True r obtain p q where
        "driverSpec trueDiv n keySig (mainEvent\<lparr>expressions := rest\<rparr>)
           = Inr (p, Some remaining, q)"
        by (auto split: sum.splits)
      from Suc.IH [OF this] Cons show ?thesis by simp
    qed
  qed
qed

text \<open>The loop computes what the specification describes, in front of which it keeps what
  its accumulators hold.\<close>

lemma realizeLoop_driverSpec:
  "expressions srcObject \<noteq> [] \<Longrightarrow>
   realizeLoop trueDiv n keySig srcObject pre0 post0
     = (case driverSpec trueDiv n keySig srcObject of
          Inl err \<Rightarrow> Inl err
        | Inr (p, m, q) \<Rightarrow> Inr (pre0 @ p, m, post0 @ q))"
proof (induction n arbitrary: srcObject pre0 post0)
  case 0
  show ?case by simp
next
  case (Suc n)
  from Suc.prems obtain thisExpression others where
    Cons: "expressions srcObject = thisExpression # others"
    by (cases "expressions srcObject") auto
  show ?case
  proof (cases "hasRealize thisExpression")
    case False
    show ?thesis
    proof (cases "others = []")
      case True
      with Cons False show ?thesis
        by (simp add: Let_def driverSpec_no_expressions)
    next
      case ne: False
      have "realizeLoop trueDiv (Suc n) keySig srcObject pre0 post0
              = realizeLoop trueDiv n keySig (srcObject\<lparr>expressions := others\<rparr>) pre0 post0"
        using Cons False ne by (simp add: Let_def)
      moreover have "driverSpec trueDiv (Suc n) keySig srcObject
              = driverSpec trueDiv n keySig (srcObject\<lparr>expressions := others\<rparr>)"
        using Cons False by simp
      ultimately show ?thesis
        using Suc.IH [of "srcObject\<lparr>expressions := others\<rparr>" pre0 post0] ne
        by simp
    qed
  next
    case True
    show ?thesis
    proof (cases "realize trueDiv thisExpression srcObject keySig False")
      case (Inl err)
      with Cons True show ?thesis by (simp add: bindE_def)
    next
      case (Inr res)
      obtain preExpand newSrcObject postExpand srcObject' where
        res: "res = ((preExpand, newSrcObject, postExpand), srcObject')"
        by (cases res) auto
      from realize_out_of_place [OF Inr [unfolded res]]
      have same: "srcObject' = srcObject" .
      show ?thesis
      proof (cases newSrcObject)
        case None
        with Cons True Inr res show ?thesis by (simp add: bindE_def)
      next
        case (Some new)
        let ?new = "new\<lparr>expressions := others\<rparr>"
        show ?thesis
        proof (cases "others = []")
          case e: True
          with Cons True Inr res Some same show ?thesis
            by (simp add: bindE_def Let_def driverSpec_no_expressions)
        next
          case ne: False
          have a: "realizeLoop trueDiv (Suc n) keySig srcObject pre0 post0
              = realizeLoop trueDiv n keySig ?new (pre0 @ preExpand) (post0 @ postExpand)"
            using Cons True Inr res Some same ne by (simp add: bindE_def Let_def)
          have b: "driverSpec trueDiv (Suc n) keySig srcObject
              = (case driverSpec trueDiv n keySig ?new of
                   Inl err \<Rightarrow> Inl err
                 | Inr (p, m, q) \<Rightarrow> Inr (preExpand @ p, m, postExpand @ q))"
            using Cons True Inr res Some by simp
          have c: "expressions ?new \<noteq> []" using ne by simp
          show ?thesis
            unfolding a b Suc.IH [OF c]
            by (simp split: sum.splits prod.splits)
        qed
      qed
    qed
  qed
qed

section \<open>Properties\<close>

text \<open>
  C10 (as amended). Invariant of \<^verbatim>\<open>Turn.delay\<close>: assigning a float or a
  \<^verbatim>\<open>Fraction\<close> that is at most zero stores \<^verbatim>\<open>NO_DELAY\<close>; the delay stored by an
  assignment (and by the constructor), if it is a float or a \<^verbatim>\<open>Fraction\<close>, is
  strictly positive; an \<^verbatim>\<open>int\<close> and the float that is not a number are stored as they
  are given; and \<^verbatim>\<open>isDelayed\<close> holds exactly when the stored delay differs from
  \<^verbatim>\<open>NO_DELAY\<close>.
\<close>

theorem C10_turn_delay_invariant:
  "(q \<le> 0 \<longrightarrow> delay (delay_setter self (DelayQL q)) = NO_DELAY)
   \<and> (delay (delay_setter self d) = DelayQL q' \<longrightarrow> 0 < q')
   \<and> (delay (Turn_init invd d up lo) = DelayQL q' \<longrightarrow> 0 < q')
   \<and> delay (delay_setter self (DelayInt i)) = DelayInt i
   \<and> delay (delay_setter self DelayNaN) = DelayNaN
   \<and> (isDelayed (delay_setter self d) \<longleftrightarrow> delay (delay_setter self d) \<noteq> NO_DELAY)
   \<and> (isDelayed (delay_setter self d) \<longleftrightarrow> d \<noteq> NO_DELAY \<and> (\<forall>q. d = DelayQL q \<longrightarrow> 0 < q))"
  by (cases d) (auto simp: isDelayed_def Turn_init_def split: if_splits)

theorem C10_turn_delay_invariant_witness:
  "delay (delay_setter (Turn_init False NO_DELAY [] []) (DelayQL (-1))) = NO_DELAY
   \<and> delay (delay_setter (Turn_init False NO_DELAY [] []) (DelayQL (1/4))) = DelayQL (1/4)
   \<and> (0::rat) < 1/4
   \<and> delay (Turn_init False (DelayQL (1/4)) [] []) = DelayQL (1/4)
   \<and> isDelayed (delay_setter (Turn_init False NO_DELAY [] []) (DelayQL (1/4)))
   \<and> \<not> isDelayed (delay_setter (Turn_init False NO_DELAY [] []) (DelayQL 0))
   \<and> delay (delay_setter (Turn_init False NO_DELAY [] []) (DelayInt 2)) = DelayInt 2"
  using C10_turn_delay_invariant
      [of "-1" "Turn_init False NO_DELAY [] []" "DelayQL (1/4)" "1/4" False "[]" "[]" 2]
    C10_turn_delay_invariant
      [of 0 "Turn_init False NO_DELAY [] []" "DelayQL 0" 0 False "[]" "[]" 2]
  by (simp add: isDelayed_def Turn_init_def)

text \<open>
  C10 as stated fails: a delay that is the \<^verbatim>\<open>int\<close> 0 or the \<^verbatim>\<open>int\<close> -1 is a
  numeric delay that is at most zero, and the setter and the constructor store it as it
  is; the stored numeric delay is not positive, and the turn counts as delayed.
\<close>

theorem C10_int_delay_counterexample:
  "delay (delay_setter (Turn_init False NO_DELAY [] []) (DelayInt 0)) = DelayInt 0
   \<and> delay (delay_setter (Turn_init False NO_DELAY [] []) (DelayInt 0)) \<noteq> NO_DELAY
   \<and> isDelayed (delay_setter (Turn_init False NO_DELAY [] []) (DelayInt 0))
   \<and> delay (Turn_init False (DelayInt (- 1)) [] []) = DelayInt (- 1)
   \<and> \<not> (0 :: int) < - 1
   \<and> isDelayed (Turn_init False (DelayInt (- 1)) [] [])"
  by (simp add: isDelayed_def Turn_init_def)





text \<open>
  C3 (as amended). The delay of a turn resolves to a remainder duration: \<^verbatim>\<open>NO_DELAY\<close>
  gives 0, \<^verbatim>\<open>DEFAULT_DELAY\<close> half the duration of the event, a quarter length that
  value. For every realization of a turn that does not raise, with a remainder that is at
  least zero and less than the duration of the event and with a positive configured
  \<^verbatim>\<open>quarterLength\<close>: there are four turn notes, whose durations, together with the
  remainder when the turn is delayed, add up to the duration of the original event,
  exactly; the main note is \<^verbatim>\<open>None\<close> when the remainder is zero and an event of the
  remainder's duration otherwise; when the duration of the turn exceeds four times the
  configured \<^verbatim>\<open>quarterLength\<close>, the first three notes have that length and the fourth
  one takes all that is left; otherwise each of the four notes lasts one quarter of the
  duration of the turn.
\<close>

theorem C3_turn_durations_sum:
  assumes "Turn_realize self srcObj keySig inPlace
             = Inr ((preNotes, mainNote, postNotes), srcObj')"
    and "turnRemainderDuration self (quarterLength srcObj) = Some rem"
    and "0 \<le> rem" and "rem < quarterLength srcObj" and "0 < turnQuarterLength self"
  shows "Some rem
           = (case delay self of
                NO_DELAY \<Rightarrow> Some 0
              | DEFAULT_DELAY \<Rightarrow> Some (quarterLength srcObj / 2)
              | DelayQL theDelay \<Rightarrow> Some theDelay
              | DelayInt theDelay \<Rightarrow> Some (of_int theDelay)
              | DelayNaN \<Rightarrow> None)
         \<and> preNotes = [] \<and> length postNotes = 4
         \<and> totalQuarterLength postNotes + rem = quarterLength srcObj
         \<and> (case mainNote of
               None \<Rightarrow> rem = 0
             | Some remainderNote \<Rightarrow> rem \<noteq> 0 \<and> quarterLength remainderNote = rem)
         \<and> (4 * turnQuarterLength self < quarterLength srcObj - rem
             \<longrightarrow> map quarterLength postNotes
                   = [turnQuarterLength self, turnQuarterLength self, turnQuarterLength self,
                      quarterLength srcObj - rem - 3 * turnQuarterLength self])
         \<and> (quarterLength srcObj - rem \<le> 4 * turnQuarterLength self
             \<longrightarrow> map quarterLength postNotes
                   = replicate 4 ((quarterLength srcObj - rem) / 4))"
proof -
  from assms(1) obtain rem' where
    rem': "turnRemainderDuration self (quarterLength srcObj) = Some rem'"
    and from': "Turn_realizeFrom self srcObj keySig inPlace rem'
                  = Inr ((preNotes, mainNote, postNotes), srcObj')"
    by (rule Turn_realize_Inr)
  from rem' assms(2) have "rem' = rem" by simp
  with from' have "Turn_realizeFrom self srcObj keySig inPlace rem
                     = Inr ((preNotes, mainNote, postNotes), srcObj')"
    by simp
  then obtain useQL fourthNoteQL i1 i2 where
    lens: "turnNoteLengths self (quarterLength srcObj - rem) = Inr (useQL, fourthNoteQL)"
    and pre: "preNotes = []"
    and post: "postNotes = turnNotesOf srcObj useQL fourthNoteQL i1 i2"
    and main: "mainNote =
       (if rem = 0 then None
        else Some (srcObj\<lparr>quarterLength := rem,
                     expressions := popAt (indexOf (TurnExpr self) (expressions srcObj))
                                      (expressions srcObj)\<rparr>))"
    by (rule Turn_realizeFrom_Inr)
  have turnDuration: "0 < quarterLength srcObj - rem"
    using assms(4) by simp
  note pos = turnNoteLengths_pos [OF lens turnDuration assms(5)]
  have qls: "map quarterLength postNotes
               = [useQL, useQL, useQL, case fourthNoteQL of None \<Rightarrow> useQL | Some q \<Rightarrow> q]"
    using pos by (simp add: post quarterLength_turnNotesOf)
  have "totalQuarterLength postNotes = quarterLength srcObj - rem"
    using turnNoteLengths_Inr(1) [OF lens] by (simp add: totalQuarterLength_def qls)
  then have total: "totalQuarterLength postNotes + rem = quarterLength srcObj"
    by simp
  have len: "length postNotes = 4"
    using arg_cong [OF qls, of length] by simp
  have held: "4 * turnQuarterLength self < quarterLength srcObj - rem
             \<longrightarrow> map quarterLength postNotes
                   = [turnQuarterLength self, turnQuarterLength self, turnQuarterLength self,
                      quarterLength srcObj - rem - 3 * turnQuarterLength self]"
    using turnNoteLengths_Inr(2) [OF lens] by (simp add: qls)
  have even: "quarterLength srcObj - rem \<le> 4 * turnQuarterLength self
             \<longrightarrow> map quarterLength postNotes
                   = replicate 4 ((quarterLength srcObj - rem) / 4)"
  proof
    assume "quarterLength srcObj - rem \<le> 4 * turnQuarterLength self"
    then consider "quarterLength srcObj - rem < 4 * turnQuarterLength self"
      | "quarterLength srcObj - rem = 4 * turnQuarterLength self"
      by linarith
    then have "useQL = (quarterLength srcObj - rem) / 4 \<and> fourthNoteQL = None"
    proof cases
      case 1
      from turnNoteLengths_Inr(3) [OF lens 1] show ?thesis .
    next
      case 2
      from turnNoteLengths_Inr(4) [OF lens 2] 2 show ?thesis by simp
    qed
    then show "map quarterLength postNotes = replicate 4 ((quarterLength srcObj - rem) / 4)"
      by (simp add: qls numeral_eq_Suc)
  qed
  have delayed: "Some rem
           = (case delay self of
                NO_DELAY \<Rightarrow> Some 0
              | DEFAULT_DELAY \<Rightarrow> Some (quarterLength srcObj / 2)
              | DelayQL theDelay \<Rightarrow> Some theDelay
              | DelayInt theDelay \<Rightarrow> Some (of_int theDelay)
              | DelayNaN \<Rightarrow> None)"
    using assms(2) by (simp add: turnRemainderDuration_def)
  have mainq: "case mainNote of
               None \<Rightarrow> rem = 0
             | Some remainderNote \<Rightarrow> rem \<noteq> 0 \<and> quarterLength remainderNote = rem"
    by (simp add: main)
  from delayed pre len total mainq held even show ?thesis
    by blast
qed

text \<open>The turn of the docstring of \<^verbatim>\<open>Turn.realize\<close>: a dotted eighth note, a delay of
  a sixteenth note and turn notes of a triplet thirty-second note. A turn with the default
  delay on an eighth note is scaled.\<close>

lemma delayed_turn_on_C4:
  "Turn_realize delayedTurn (noteOf (pitchOf StepC 4) (3/4) [TurnExpr delayedTurn] None)
     None False
   = Inr (([], Some (noteOf (pitchOf StepC 4) (1/4) [] None),
           [noteOf (pitchOf StepD 4) (1/12) [] None,
            noteOf (pitchOf StepC 4) (1/12) [] None,
            noteOf (pitchOf StepB 3) (1/12) [] None,
            noteOf (pitchOf StepC 4) (1/4) [] None]),
          noteOf (pitchOf StepC 4) (3/4) [TurnExpr delayedTurn] None)"
  by code_simp

lemma default_delay_turn_on_C4:
  "Turn_realize (Turn_init False DEFAULT_DELAY [] []) (noteOf (pitchOf StepC 4) (1/2) [] None)
     None False
   = Inr (([], Some (noteOf (pitchOf StepC 4) (1/4) [] None),
           [noteOf (pitchOf StepD 4) (1/16) [] None,
            noteOf (pitchOf StepC 4) (1/16) [] None,
            noteOf (pitchOf StepB 3) (1/16) [] None,
            noteOf (pitchOf StepC 4) (1/16) [] None]),
          noteOf (pitchOf StepC 4) (1/2) [] None)"
  by code_simp

theorem C3_turn_durations_sum_witness:
  "Turn_realize delayedTurn (noteOf (pitchOf StepC 4) (3/4) [TurnExpr delayedTurn] None)
     None False
   = Inr (([], Some (noteOf (pitchOf StepC 4) (1/4) [] None),
           [noteOf (pitchOf StepD 4) (1/12) [] None,
            noteOf (pitchOf StepC 4) (1/12) [] None,
            noteOf (pitchOf StepB 3) (1/12) [] None,
            noteOf (pitchOf StepC 4) (1/4) [] None]),
          noteOf (pitchOf StepC 4) (3/4) [TurnExpr delayedTurn] None)
   \<and> turnRemainderDuration delayedTurn (3/4) = Some (1/4)
   \<and> (0 :: rat) \<le> 1/4 \<and> (1/4 :: rat) < 3/4 \<and> 0 < turnQuarterLength delayedTurn
   \<and> 4 * turnQuarterLength delayedTurn < 3/4 - 1/4
   \<and> totalQuarterLength
        [noteOf (pitchOf StepD 4) (1/12) [] None,
         noteOf (pitchOf StepC 4) (1/12) [] None,
         noteOf (pitchOf StepB 3) (1/12) [] None,
         noteOf (pitchOf StepC 4) (1/4) [] None] + 1/4 = 3/4
   \<and> Turn_realize (Turn_init False DEFAULT_DELAY [] [])
        (noteOf (pitchOf StepC 4) (1/2) [] None) None False
      = Inr (([], Some (noteOf (pitchOf StepC 4) (1/4) [] None),
           [noteOf (pitchOf StepD 4) (1/16) [] None,
            noteOf (pitchOf StepC 4) (1/16) [] None,
            noteOf (pitchOf StepB 3) (1/16) [] None,
            noteOf (pitchOf StepC 4) (1/16) [] None]),
          noteOf (pitchOf StepC 4) (1/2) [] None)
   \<and> turnRemainderDuration (Turn_init False DEFAULT_DELAY [] []) (1/2) = Some (1/4)
   \<and> (1/2 :: rat) - 1/4 \<le> 4 * turnQuarterLength (Turn_init False DEFAULT_DELAY [] [])
   \<and> totalQuarterLength
        [noteOf (pitchOf StepD 4) (1/16) [] None,
         noteOf (pitchOf StepC 4) (1/16) [] None,
         noteOf (pitchOf StepB 3) (1/16) [] None,
         noteOf (pitchOf StepC 4) (1/16) [] None] + 1/4 = 1/2"
  using C3_turn_durations_sum [OF delayed_turn_on_C4, of "1/4"]
    C3_turn_durations_sum [OF default_delay_turn_on_C4, of "1/4"]
    delayed_turn_on_C4 default_delay_turn_on_C4
  by (simp add: noteOf_def delayedTurn_def Turn_init_def turnRemainderDuration_def
        totalQuarterLength_def sum_list_replicate)

text \<open>
  C3 as stated fails: for a delayed turn, three of the four turn notes and the delay do not
  add up to the duration of the event, whichever three are taken. Here the event lasts 3/4,
  the delay is 1/4 and the turn notes last 1/12, 1/12, 1/12 and 1/4.
\<close>

theorem C3_three_notes_counterexample:
  "isDelayed delayedTurn
   \<and> Turn_realize delayedTurn
       (noteOf (pitchOf StepC 4) (3/4) [TurnExpr delayedTurn] None) None False
     = Inr (([], Some (noteOf (pitchOf StepC 4) (1/4) [] None),
             [noteOf (pitchOf StepD 4) (1/12) [] None,
              noteOf (pitchOf StepC 4) (1/12) [] None,
              noteOf (pitchOf StepB 3) (1/12) [] None,
              noteOf (pitchOf StepC 4) (1/4) [] None]),
            noteOf (pitchOf StepC 4) (3/4) [TurnExpr delayedTurn] None)
   \<and> totalQuarterLength
         [noteOf (pitchOf StepD 4) (1/12) [] None,
          noteOf (pitchOf StepC 4) (1/12) [] None,
          noteOf (pitchOf StepB 3) (1/12) [] None]
       + quarterLength (noteOf (pitchOf StepC 4) (1/4) [] None)
     \<noteq> quarterLength (noteOf (pitchOf StepC 4) (3/4) [TurnExpr delayedTurn] None)
   \<and> totalQuarterLength
         [noteOf (pitchOf StepD 4) (1/12) [] None,
          noteOf (pitchOf StepC 4) (1/12) [] None,
          noteOf (pitchOf StepC 4) (1/4) [] None]
       + quarterLength (noteOf (pitchOf StepC 4) (1/4) [] None)
     \<noteq> quarterLength (noteOf (pitchOf StepC 4) (3/4) [TurnExpr delayedTurn] None)
   \<and> totalQuarterLength
         [noteOf (pitchOf StepD 4) (1/12) [] None,
          noteOf (pitchOf StepB 3) (1/12) [] None,
          noteOf (pitchOf StepC 4) (1/4) [] None]
       + quarterLength (noteOf (pitchOf StepC 4) (1/4) [] None)
     \<noteq> quarterLength (noteOf (pitchOf StepC 4) (3/4) [TurnExpr delayedTurn] None)
   \<and> totalQuarterLength
         [noteOf (pitchOf StepC 4) (1/12) [] None,
          noteOf (pitchOf StepB 3) (1/12) [] None,
          noteOf (pitchOf StepC 4) (1/4) [] None]
       + quarterLength (noteOf (pitchOf StepC 4) (1/4) [] None)
     \<noteq> quarterLength (noteOf (pitchOf StepC 4) (3/4) [TurnExpr delayedTurn] None)"
proof -
  have delayed: "isDelayed delayedTurn"
    by (simp add: isDelayed_def delayedTurn_def Turn_init_def)
  have sums:
    "totalQuarterLength
         [noteOf (pitchOf StepD 4) (1/12) [] None,
          noteOf (pitchOf StepC 4) (1/12) [] None,
          noteOf (pitchOf StepB 3) (1/12) [] None]
       + quarterLength (noteOf (pitchOf StepC 4) (1/4) [] None)
     \<noteq> quarterLength (noteOf (pitchOf StepC 4) (3/4) [TurnExpr delayedTurn] None)"
    "totalQuarterLength
         [noteOf (pitchOf StepD 4) (1/12) [] None,
          noteOf (pitchOf StepC 4) (1/12) [] None,
          noteOf (pitchOf StepC 4) (1/4) [] None]
       + quarterLength (noteOf (pitchOf StepC 4) (1/4) [] None)
     \<noteq> quarterLength (noteOf (pitchOf StepC 4) (3/4) [TurnExpr delayedTurn] None)"
    "totalQuarterLength
         [noteOf (pitchOf StepD 4) (1/12) [] None,
          noteOf (pitchOf StepB 3) (1/12) [] None,
          noteOf (pitchOf StepC 4) (1/4) [] None]
       + quarterLength (noteOf (pitchOf StepC 4) (1/4) [] None)
     \<noteq> quarterLength (noteOf (pitchOf StepC 4) (3/4) [TurnExpr delayedTurn] None)"
    "totalQuarterLength
         [noteOf (pitchOf StepC 4) (1/12) [] None,
          noteOf (pitchOf StepB 3) (1/12) [] None,
          noteOf (pitchOf StepC 4) (1/4) [] None]
       + quarterLength (noteOf (pitchOf StepC 4) (1/4) [] None)
     \<noteq> quarterLength (noteOf (pitchOf StepC 4) (3/4) [TurnExpr delayedTurn] None)"
    by (simp_all add: totalQuarterLength_def noteOf_def)
  from delayed delayed_turn_on_C4 sums show ?thesis
    by blast
qed

text \<open>
  C2 (as amended). For every realization of a trill that does not raise, on an event of
  positive duration and with a positive configured \<^verbatim>\<open>quarterLength\<close>: the main note is
  \<^verbatim>\<open>None\<close>; every returned note lasts \<^verbatim>\<open>useQL\<close>; a nachschlag is two notes; the
  alternation notes come in pairs, as many as the truncated half of the truncated quotient
  of the duration by \<^verbatim>\<open>useQL\<close> (less two for a nachschlag). Where the two quotients
  are computed without rounding, the returned notes (the alternation notes, and the two
  notes of the nachschlag if there is one) are \<open>2 * (\<lfloor>srcDuration / useQL\<rfloor> div 2)\<close> in
  number, so their number times \<^verbatim>\<open>useQL\<close> is at most the duration of the event and
  falls short of it by less than \<open>2 * useQL\<close>; it equals the duration exactly when the
  duration is an even multiple of \<^verbatim>\<open>useQL\<close>, which is so whenever \<^verbatim>\<open>autoScale\<close>
  has shrunk \<^verbatim>\<open>useQL\<close>.
\<close>

theorem C2_trill_note_count:
  assumes "Trill_realize trueDiv self srcObj keySig inPlace
             = Inr ((preNotes, mainNote, postNotes), srcObj')"
    and "0 < quarterLength srcObj" and "0 < trillQuarterLength self"
  shows "\<exists>useQL numberOfNotes.
           Trill_useQL self (quarterLength srcObj) = Inr useQL
           \<and> numberOfNotes = pyInt (trueDiv (quarterLength srcObj) useQL)
                              - (if nachschlag self then 2 else 0)
           \<and> mainNote = None
           \<and> map quarterLength preNotes = replicate (length preNotes) useQL
           \<and> map quarterLength postNotes = (if nachschlag self then [useQL, useQL] else [])
           \<and> length preNotes = 2 * nat (pyInt (trueDiv (of_int numberOfNotes) 2))
           \<and> (trueDiv (quarterLength srcObj) useQL = quarterLength srcObj / useQL
              \<and> trueDiv (of_int numberOfNotes) 2 = of_int numberOfNotes / 2
              \<longrightarrow>
                int (length preNotes + length postNotes)
                  = 2 * (\<lfloor>quarterLength srcObj / useQL\<rfloor> div 2)
                \<and> of_nat (length preNotes + length postNotes) * useQL \<le> quarterLength srcObj
                \<and> quarterLength srcObj - of_nat (length preNotes + length postNotes) * useQL
                    < 2 * useQL
                \<and> (of_nat (length preNotes + length postNotes) * useQL = quarterLength srcObj
                     \<longleftrightarrow> (\<exists>k::int. quarterLength srcObj = of_int (2 * k) * useQL))
                \<and> (quarterLength srcObj < 2 * trillQuarterLength self
                     \<or> (nachschlag self \<and> quarterLength srcObj < 4 * trillQuarterLength self)
                    \<longrightarrow> of_nat (length preNotes + length postNotes) * useQL
                          = quarterLength srcObj))"
proof -
  let ?d = "quarterLength srcObj"
  from assms(1) obtain useQL numberOfNotes where
    use: "Trill_useQL self ?d = Inr useQL"
    and num: "numberOfTrillNotes trueDiv self ?d useQL = Inr numberOfNotes"
    and pre: "map quarterLength preNotes
                = replicate (2 * nat (pyInt (trueDiv (of_int numberOfNotes) 2))) useQL"
    and main: "mainNote = None"
    and post: "map quarterLength postNotes = (if nachschlag self then [useQL, useQL] else [])"
    by (rule Trill_realize_Inr)
  note u = Trill_useQL_Inr [OF use assms(2) assms(3)]
  have n: "numberOfNotes = pyInt (trueDiv ?d useQL) - (if nachschlag self then 2 else 0)"
    using num by (simp add: numberOfTrillNotes_def split: if_splits)
  have lpre: "length preNotes = 2 * nat (pyInt (trueDiv (of_int numberOfNotes) 2))"
    using arg_cong [OF pre, of length] by simp
  have lpost: "length postNotes = (if nachschlag self then 2 else 0)"
    using arg_cong [OF post, of length] by (simp split: if_splits)
  have pre': "map quarterLength preNotes = replicate (length preNotes) useQL"
    using pre lpre by simp
  have exact: "trueDiv ?d useQL = ?d / useQL
              \<and> trueDiv (of_int numberOfNotes) 2 = of_int numberOfNotes / 2
              \<longrightarrow>
                int (length preNotes + length postNotes) = 2 * (\<lfloor>?d / useQL\<rfloor> div 2)
                \<and> of_nat (length preNotes + length postNotes) * useQL \<le> ?d
                \<and> ?d - of_nat (length preNotes + length postNotes) * useQL < 2 * useQL
                \<and> (of_nat (length preNotes + length postNotes) * useQL = ?d
                     \<longleftrightarrow> (\<exists>k::int. ?d = of_int (2 * k) * useQL))
                \<and> (?d < 2 * trillQuarterLength self
                     \<or> (nachschlag self \<and> ?d < 4 * trillQuarterLength self)
                    \<longrightarrow> of_nat (length preNotes + length postNotes) * useQL = ?d)"
  proof
    assume ex: "trueDiv ?d useQL = ?d / useQL
                \<and> trueDiv (of_int numberOfNotes) 2 = of_int numberOfNotes / 2"
    have n': "numberOfNotes = pyInt (?d / useQL) - (if nachschlag self then 2 else 0)"
      using n ex by simp
    have lpre': "length preNotes = 2 * nat (pyInt (of_int numberOfNotes / 2))"
      using lpre ex by simp
    have c: "length preNotes + length postNotes
             = 2 * nat (pyInt (of_int (pyInt (?d / useQL) - (if nachschlag self then 2 else 0)) / 2))
               + (if nachschlag self then 2 else 0)"
      by (simp only: lpre' lpost n')
    note count = trill_count [OF u(1) u(2) u(3), of "nachschlag self", folded c]
    have shrunk: "?d < 2 * trillQuarterLength self
                  \<or> (nachschlag self \<and> ?d < 4 * trillQuarterLength self)
                 \<longrightarrow> of_nat (length preNotes + length postNotes) * useQL = ?d"
    proof
      assume "?d < 2 * trillQuarterLength self
              \<or> (nachschlag self \<and> ?d < 4 * trillQuarterLength self)"
      from u(4) [OF this] have "?d = of_int (2 * (if nachschlag self then 2 else 1)) * useQL"
        by simp
      then have "\<exists>k::int. ?d = of_int (2 * k) * useQL" by blast
      with count(4) show "of_nat (length preNotes + length postNotes) * useQL = ?d"
        by blast
    qed
    from count shrunk
    show "int (length preNotes + length postNotes) = 2 * (\<lfloor>?d / useQL\<rfloor> div 2)
                \<and> of_nat (length preNotes + length postNotes) * useQL \<le> ?d
                \<and> ?d - of_nat (length preNotes + length postNotes) * useQL < 2 * useQL
                \<and> (of_nat (length preNotes + length postNotes) * useQL = ?d
                     \<longleftrightarrow> (\<exists>k::int. ?d = of_int (2 * k) * useQL))
                \<and> (?d < 2 * trillQuarterLength self
                     \<or> (nachschlag self \<and> ?d < 4 * trillQuarterLength self)
                    \<longrightarrow> of_nat (length preNotes + length postNotes) * useQL = ?d)"
      by blast
  qed
  from use n main pre' post lpre exact show ?thesis
    by blast
qed

lemma trill_on_C4_eighth:
  "Trill_realize exactDiv newTrill (noteOf (pitchOf StepC 4) (1/2) [] None) None False
   = Inr (([noteOf (pitchOf StepC 4) (1/8) [] None, noteOf (pitchOf StepD 4) (1/8) [] None,
            noteOf (pitchOf StepC 4) (1/8) [] None, noteOf (pitchOf StepD 4) (1/8) [] None],
           None, []),
          noteOf (pitchOf StepC 4) (1/2) [] None)"
  by code_simp

lemma trill_on_C4_short:
  "Trill_realize exactDiv newTrill (noteOf (pitchOf StepC 4) (1/8) [] None) None False
   = Inr (([noteOf (pitchOf StepC 4) (1/16) [] None, noteOf (pitchOf StepD 4) (1/16) [] None],
           None, []),
          noteOf (pitchOf StepC 4) (1/8) [] None)"
  by code_simp

theorem C2_trill_note_count_witness:
  "Trill_realize exactDiv newTrill (noteOf (pitchOf StepC 4) (1/2) [] None) None False
   = Inr (([noteOf (pitchOf StepC 4) (1/8) [] None, noteOf (pitchOf StepD 4) (1/8) [] None,
            noteOf (pitchOf StepC 4) (1/8) [] None, noteOf (pitchOf StepD 4) (1/8) [] None],
           None, []),
          noteOf (pitchOf StepC 4) (1/2) [] None)
   \<and> Trill_useQL newTrill (1/2) = Inr (1/8)
   \<and> exactDiv (1/2) (1/8) = (1/2) / (1/8)
   \<and> exactDiv (of_int 4) 2 = of_int 4 / 2
   \<and> (4 :: rat) * (1/8) = 1/2
   \<and> Trill_realize exactDiv newTrill (noteOf (pitchOf StepC 4) (1/8) [] None) None False
     = Inr (([noteOf (pitchOf StepC 4) (1/16) [] None, noteOf (pitchOf StepD 4) (1/16) [] None],
             None, []),
            noteOf (pitchOf StepC 4) (1/8) [] None)
   \<and> (1/8 :: rat) < 2 * trillQuarterLength newTrill
   \<and> Trill_useQL newTrill (1/8) = Inr (1/16)
   \<and> (2 :: rat) * (1/16) = 1/8"
  using C2_trill_note_count [OF trill_on_C4_eighth] C2_trill_note_count [OF trill_on_C4_short]
    trill_on_C4_eighth trill_on_C4_short
  by (simp add: noteOf_def newTrill_def Trill_useQL_def exactDiv_def)

text \<open>
  C2 as stated fails: a trill of thirty-second notes on a dotted sixteenth note (3/8) is two
  notes, which last 1/4; with a nachschlag on an event of 5/8, two alternation notes and
  the two notes of the nachschlag last 1/2.
\<close>

lemma trill_on_C4_dotted:
  "Trill_realize exactDiv newTrill (noteOf (pitchOf StepC 4) (3/8) [] None) None False
   = Inr (([noteOf (pitchOf StepC 4) (1/8) [] None, noteOf (pitchOf StepD 4) (1/8) [] None],
           None, []),
          noteOf (pitchOf StepC 4) (3/8) [] None)"
  by code_simp

lemma trill_nachschlag_on_C4:
  "Trill_realize exactDiv (newTrill\<lparr>nachschlag := True\<rparr>)
     (noteOf (pitchOf StepC 4) (5/8) [] None) None False
   = Inr (([noteOf (pitchOf StepC 4) (1/8) [] None, noteOf (pitchOf StepD 4) (1/8) [] None],
           None,
           [noteOf (pitchOf StepC 4) (1/8) [] None, noteOf (pitchOf StepB 3) (1/8) [] None]),
          noteOf (pitchOf StepC 4) (5/8) [] None)"
  by code_simp

theorem C2_trill_exact_fill_counterexample:
  "Trill_realize exactDiv newTrill (noteOf (pitchOf StepC 4) (3/8) [] None) None False
   = Inr (([noteOf (pitchOf StepC 4) (1/8) [] None, noteOf (pitchOf StepD 4) (1/8) [] None],
           None, []),
          noteOf (pitchOf StepC 4) (3/8) [] None)
   \<and> Trill_useQL newTrill (3/8) = Inr (1/8)
   \<and> of_nat (length [noteOf (pitchOf StepC 4) (1/8) [] None,
                      noteOf (pitchOf StepD 4) (1/8) [] None]) * (1/8)
       \<noteq> quarterLength (noteOf (pitchOf StepC 4) (3/8) [] None)
   \<and> Trill_realize exactDiv (newTrill\<lparr>nachschlag := True\<rparr>)
       (noteOf (pitchOf StepC 4) (5/8) [] None) None False
     = Inr (([noteOf (pitchOf StepC 4) (1/8) [] None, noteOf (pitchOf StepD 4) (1/8) [] None],
             None,
             [noteOf (pitchOf StepC 4) (1/8) [] None, noteOf (pitchOf StepB 3) (1/8) [] None]),
            noteOf (pitchOf StepC 4) (5/8) [] None)
   \<and> Trill_useQL (newTrill\<lparr>nachschlag := True\<rparr>) (5/8) = Inr (1/8)
   \<and> (of_nat (length [noteOf (pitchOf StepC 4) (1/8) [] None,
                       noteOf (pitchOf StepD 4) (1/8) [] None]) + 2) * (1/8)
       \<noteq> quarterLength (noteOf (pitchOf StepC 4) (5/8) [] None)"
  using trill_on_C4_dotted trill_nachschlag_on_C4
  by (simp add: noteOf_def newTrill_def Trill_useQL_def)

text \<open>
  A quotient that is rounded can lose a pair of notes. On a float of 2.25 and a trill whose
  \<^verbatim>\<open>quarterLength\<close> is the fraction 9/56, Python divides the float by the double that is
  nearest to 9/56, and the quotient is the double below 14, \<open>14 - 1 / 2 ^ 49\<close>: the trill has
  twelve notes, where the exact quotient gives fourteen, which fill the event.
\<close>

lemma trill_with_rounded_quotient:
  "Trill_realize (\<lambda>a b. if a = 9/4 \<and> b = 9/56 then 14 - 1 / 2 ^ 49 else a / b)
     (newTrill\<lparr>trillQuarterLength := 9/56\<rparr>) (noteOf (pitchOf StepC 4) (9/4) [] None) None False
   = Inr ((concat (replicate 6 [noteOf (pitchOf StepC 4) (9/56) [] None,
                                noteOf (pitchOf StepD 4) (9/56) [] None]),
           None, []),
          noteOf (pitchOf StepC 4) (9/4) [] None)
   \<and> Trill_realize exactDiv
       (newTrill\<lparr>trillQuarterLength := 9/56\<rparr>) (noteOf (pitchOf StepC 4) (9/4) [] None) None False
     = Inr ((concat (replicate 7 [noteOf (pitchOf StepC 4) (9/56) [] None,
                                  noteOf (pitchOf StepD 4) (9/56) [] None]),
             None, []),
            noteOf (pitchOf StepC 4) (9/4) [] None)
   \<and> (12 :: rat) * (9/56) < 9/4 \<and> (14 :: rat) * (9/56) = 9/4"
  by code_simp

text \<open>
  C1 (as amended). On a source event whose duration is zero, \<^verbatim>\<open>realize\<close> of every
  concrete ornament of the mordent, trill, turn and appoggiatura families never returns
  normally, and it fails with the domain error ``Cannot steal time from an object with no
  duration'' on a note (a pitched event; a mordent needs its direction, an appoggiatura
  its direction and size, which the concrete classes set). \<^verbatim>\<open>Tremolo.realize\<close> does
  not look at the duration: on such an event it returns normally, with the event (less the
  tremolo) as the only sub-note.
\<close>

theorem C1_zero_duration_raises:
  assumes "quarterLength srcObj = 0"
  shows "(isUpOrDown (mordentDirection (mordentClass m))
            \<longrightarrow> Mordent_realize m srcObj keySig inPlace = Inl noDuration)
         \<and> (pitch srcObj \<noteq> None
            \<longrightarrow> Trill_realize trueDiv t srcObj keySig inPlace = Inl noDuration)
         \<and> (pitch srcObj \<noteq> None \<longrightarrow> Turn_realize u srcObj keySig inPlace = Inl noDuration)
         \<and> (isUpOrDown (appoggiaturaDirection a) \<and> appoggiaturaSize a \<noteq> None
            \<longrightarrow> Appoggiatura_realize a srcObj keySig inPlace = Inl noDuration)
         \<and> (\<forall>r. Mordent_realize m srcObj keySig inPlace \<noteq> Inr r)
         \<and> (\<forall>r. Trill_realize trueDiv t srcObj keySig inPlace \<noteq> Inr r)
         \<and> (\<forall>r. Turn_realize u srcObj keySig inPlace \<noteq> Inr r)
         \<and> (\<forall>r. Appoggiatura_realize a srcObj keySig inPlace \<noteq> Inr r)
         \<and> Tremolo_realize tr srcObj keySig inPlace
             = Inr (([if containsExpression (TremoloExpr tr) (expressions srcObj)
                      then srcObj\<lparr>expressions :=
                                    removeExpression (TremoloExpr tr) (expressions srcObj)\<rparr>
                      else srcObj], None, []),
                    if inPlace \<and> containsExpression (TremoloExpr tr) (expressions srcObj)
                    then srcObj\<lparr>expressions :=
                                  removeExpression (TremoloExpr tr) (expressions srcObj)\<rparr>
                    else srcObj)"
proof -
  have mordent: "isUpOrDown (mordentDirection (mordentClass m))
            \<longrightarrow> Mordent_realize m srcObj keySig inPlace = Inl noDuration"
    using assms by (simp add: Mordent_realize_def noDuration_def)
  have mordent': "\<forall>r. Mordent_realize m srcObj keySig inPlace \<noteq> Inr r"
    using assms by (simp add: Mordent_realize_def)
  have trill: "pitch srcObj \<noteq> None
                 \<longrightarrow> Trill_realize trueDiv t srcObj keySig inPlace = Inl noDuration"
    using assms by (simp add: Trill_realize_def Trill_useQL_def bindE_def noDuration_def)
  have trill': "\<forall>r. Trill_realize trueDiv t srcObj keySig inPlace \<noteq> Inr r"
    using assms by (simp add: Trill_realize_def Trill_useQL_def bindE_def)
  have turn: "pitch srcObj \<noteq> None \<longrightarrow> Turn_realize u srcObj keySig inPlace = Inl noDuration"
    using assms by (simp add: Turn_realize_def noDuration_def)
  have turn': "\<forall>r. Turn_realize u srcObj keySig inPlace \<noteq> Inr r"
    using assms by (simp add: Turn_realize_def)
  have app: "isUpOrDown (appoggiaturaDirection a) \<and> appoggiaturaSize a \<noteq> None
            \<longrightarrow> Appoggiatura_realize a srcObj keySig inPlace = Inl noDuration"
    using assms by (auto simp: Appoggiatura_realize_def noDuration_def)
  have app': "\<forall>r. Appoggiatura_realize a srcObj keySig inPlace \<noteq> Inr r"
    using assms by (simp add: Appoggiatura_realize_def split: option.splits)
  have "\<not> lengthOfEach tr < 0"
    using lengthOfEach_pos [of tr] by simp
  then have trem: "Tremolo_realize tr srcObj keySig inPlace
             = Inr (([if containsExpression (TremoloExpr tr) (expressions srcObj)
                      then srcObj\<lparr>expressions :=
                                    removeExpression (TremoloExpr tr) (expressions srcObj)\<rparr>
                      else srcObj], None, []),
                    if inPlace \<and> containsExpression (TremoloExpr tr) (expressions srcObj)
                    then srcObj\<lparr>expressions :=
                                  removeExpression (TremoloExpr tr) (expressions srcObj)\<rparr>
                    else srcObj)"
    using assms by (simp add: Tremolo_realize_def Let_def)
  from mordent mordent' trill trill' turn turn' app app' trem show ?thesis
    by blast
qed

theorem C1_zero_duration_raises_witness:
  "quarterLength (noteOf (pitchOf StepC 4) 0 [] None) = 0
   \<and> isUpOrDown (mordentDirection (mordentClass (newMordent MordentC)))
   \<and> pitch (noteOf (pitchOf StepC 4) 0 [] None) \<noteq> None
   \<and> isUpOrDown (appoggiaturaDirection newAppoggiatura)
   \<and> appoggiaturaSize newAppoggiatura \<noteq> None
   \<and> Mordent_realize (newMordent MordentC) (noteOf (pitchOf StepC 4) 0 [] None) None False
       = Inl noDuration
   \<and> Trill_realize exactDiv newTrill (noteOf (pitchOf StepC 4) 0 [] None) None False
       = Inl noDuration
   \<and> Turn_realize (Turn_init False NO_DELAY [] []) (noteOf (pitchOf StepC 4) 0 [] None)
         None False = Inl noDuration
   \<and> Appoggiatura_realize newAppoggiatura (noteOf (pitchOf StepC 4) 0 [] None) None False
       = Inl noDuration"
  using C1_zero_duration_raises
    [where srcObj = "noteOf (pitchOf StepC 4) 0 [] None" and m = "newMordent MordentC"
       and t = newTrill and u = "Turn_init False NO_DELAY [] []" and a = newAppoggiatura
       and keySig = None and inPlace = False and trueDiv = exactDiv]
  by (simp add: noteOf_def newMordent_def newAppoggiatura_def)

text \<open>
  C1 as stated fails for the tremolo: on a note of duration zero that carries the tremolo,
  \<^verbatim>\<open>Tremolo.realize\<close> returns one sub-note, the copy of the note without the tremolo.
\<close>

theorem C1_tremolo_returns_counterexample:
  "quarterLength (noteOf (pitchOf StepC 4) 0 [TremoloExpr Tremolo_init] None) = 0
   \<and> Tremolo_realize Tremolo_init
       (noteOf (pitchOf StepC 4) 0 [TremoloExpr Tremolo_init] None) None False
     = Inr (([noteOf (pitchOf StepC 4) 0 [] None], None, []),
            noteOf (pitchOf StepC 4) 0 [TremoloExpr Tremolo_init] None)"
  by code_simp


text \<open>With \<^verbatim>\<open>inPlace=True\<close> the same call shortens the source event and removes the
  mordent from it.\<close>

lemma mordent_in_place_on_C4:
  "realize exactDiv (MordentExpr (newMordent MordentC))
     (noteOf (pitchOf StepC 4) (1/2) [MordentExpr (newMordent MordentC)] None) None True
   = Inr (([noteOf (pitchOf StepC 4) (1/8) [MordentExpr (newMordent MordentC)] None,
            noteOf (pitchOf StepB 3) (1/8) [MordentExpr (newMordent MordentC)] None],
           Some (noteOf (pitchOf StepC 4) (1/4) [] None), []),
          noteOf (pitchOf StepC 4) (1/4) [] None)"
  by code_simp




text \<open>
  C8 (as amended). \<^verbatim>\<open>Mordent().getSize\<close>, the mordent of the downward class, applied
  to a C4 note with no explicit accidental and a zero-sharps key signature (passed, or the
  default when none is passed and none is found) returns a minor second down; with
  \<^verbatim>\<open>accidentalName='flat'\<close> it returns a major second down.
\<close>

theorem C8_mordent_getSize_C4:
  "Mordent_init MordentC None = Inr (newMordent MordentC)
   \<and> Mordent_getSize (newMordent MordentC) (noteOf (pitchOf StepC 4) ql exprs ctx) (Some 0)
       = Inr minorSecondDown
   \<and> Mordent_getSize (newMordent MordentC) (noteOf (pitchOf StepC 4) ql exprs None) None
       = Inr minorSecondDown
   \<and> Mordent_init MordentC (Some ''flat'')
       = Inr ((newMordent MordentC)\<lparr>mordentAccidentalName := ''flat''\<rparr>)
   \<and> Mordent_getSize ((newMordent MordentC)\<lparr>mordentAccidentalName := ''flat''\<rparr>)
         (noteOf (pitchOf StepC 4) ql exprs ctx) (Some 0)
       = Inr majorSecondDown"
proof -
  have init: "Mordent_init MordentC None = Inr (newMordent MordentC)"
    by (simp add: Mordent_init_def newMordent_def)
  have initFlat: "Mordent_init MordentC (Some ''flat'')
       = Inr ((newMordent MordentC)\<lparr>mordentAccidentalName := ''flat''\<rparr>)"
    by (simp add: Mordent_init_def newMordent_def flat_valid)
  have B3: "transposeGeneric (- 1) \<lparr>step = StepC, octave = 4, accidental = None\<rparr>
              = \<lparr>step = StepB, octave = 3, accidental = None\<rparr>"
    by (simp add: transposeGeneric_def setDiatonicNoteNum_def diatonicNoteNum_def
          stepOfIndex_def)
  have plain: "\<And>k. GeneralMordent_getSize (newMordent MordentC)
                 (noteOf (pitchOf StepC 4) ql exprs k) (Some 0) = Inr minorSecondDown"
    by (simp add: GeneralMordent_getSize_def newMordent_def noteOf_def Let_def B3
          keySigOrContext_def Mordent_accidentalName_def accidentalByStep_def
          IntervalBetween_def diatonicNoteNum_def ps_def accidentalAlter_def pitchOf_def
          minorSecondDown_def)
  have plainNone: "GeneralMordent_getSize (newMordent MordentC)
                 (noteOf (pitchOf StepC 4) ql exprs None) None = Inr minorSecondDown"
    by (simp add: GeneralMordent_getSize_def newMordent_def noteOf_def Let_def B3
          keySigOrContext_def Mordent_accidentalName_def accidentalByStep_def
          IntervalBetween_def diatonicNoteNum_def ps_def accidentalAlter_def pitchOf_def
          minorSecondDown_def)
  have flat: "alter (AccidentalNamed ''flat'') = - 1"
    by (simp add: AccidentalNamed_def accidentalNameToAlter_def)
  have flatted: "GeneralMordent_getSize ((newMordent MordentC)\<lparr>mordentAccidentalName := ''flat''\<rparr>)
                 (noteOf (pitchOf StepC 4) ql exprs ctx) (Some 0) = Inr majorSecondDown"
    by (simp add: GeneralMordent_getSize_def newMordent_def noteOf_def Let_def B3
          keySigOrContext_def Mordent_accidentalName_def
          IntervalBetween_def diatonicNoteNum_def ps_def accidentalAlter_def pitchOf_def
          majorSecondDown_def flat)
  from init initFlat plain [of ctx] plainNone flatted show ?thesis
    by (simp add: Mordent_getSize_def newMordent_def)
qed

text \<open>
  C8 as stated fails: \<^verbatim>\<open>GeneralMordent()\<close>, the base class, has no direction, and its
  \<^verbatim>\<open>getSize\<close> raises, with or without an accidental name.
\<close>

theorem C8_general_mordent_counterexample:
  "Mordent_init GeneralMordentC None = Inr (newMordent GeneralMordentC)
   \<and> Mordent_getSize (newMordent GeneralMordentC) (noteOf (pitchOf StepC 4) 1 [] None) (Some 0)
       = Inl (ExpressionException ''Cannot compute mordent size if I do not know its direction'')
   \<and> Mordent_getSize (newMordent GeneralMordentC) (noteOf (pitchOf StepC 4) 1 [] None) (Some 0)
       \<noteq> Inr minorSecondDown
   \<and> Mordent_init GeneralMordentC (Some ''flat'')
       = Inr ((newMordent GeneralMordentC)\<lparr>mordentAccidentalName := ''flat''\<rparr>)
   \<and> Mordent_getSize ((newMordent GeneralMordentC)\<lparr>mordentAccidentalName := ''flat''\<rparr>)
         (noteOf (pitchOf StepC 4) 1 [] None) (Some 0)
       \<noteq> Inr majorSecondDown"
  by code_simp

text \<open>
  C6 (as amended). An \<^verbatim>\<open>int\<close> out of the range from 0 to 8 that is assigned as tremolo
  mark count is refused by the assignment, never clamped, and an \<^verbatim>\<open>int\<close> from 0 to 8
  is stored as it is; a float or a \<^verbatim>\<open>Fraction\<close> is truncated towards zero before
  the range is tested, without an error, so every value above -1 and below 9 is stored, as
  its integer part; a string that is not a number is refused. An invalid numbering is
  refused by the constructor of the rehearsal mark, an invalid arpeggio type by the
  constructors of the two arpeggio marks, except that \<^verbatim>\<open>ArpeggioMark\<close> replaces an
  empty type by \<^verbatim>\<open>'normal'\<close>; the fixed-interval mordents and trills refuse every
  assignment of an accidental name. An invalid accidental name assigned to a mordent, a
  trill or a turn of the other classes is not an error: the assignment returns and the
  stored name becomes the empty name.
\<close>

theorem C6_configuration_errors:
  "(num < 0 \<or> 8 < num \<longrightarrow>
      numberOfMarks_setter parseInt tremolo (PyInt num)
        = Inl (TremoloException ''Number of marks must be a number from 0 to 8''))
   \<and> (0 \<le> num \<and> num \<le> 8 \<longrightarrow>
      numberOfMarks_setter parseInt tremolo (PyInt num)
        = Inr (tremolo\<lparr>numberOfMarks := num\<rparr>))
   \<and> numberOfMarks_setter parseInt tremolo (PyFloat x)
        = numberOfMarks_setter parseInt tremolo (PyInt (pyInt x))
   \<and> (- 1 < x \<and> x < 9 \<longrightarrow>
      numberOfMarks_setter parseInt tremolo (PyFloat x)
        = Inr (tremolo\<lparr>numberOfMarks := pyInt x\<rparr>))
   \<and> (x \<le> - 1 \<or> 9 \<le> x \<longrightarrow>
      numberOfMarks_setter parseInt tremolo (PyFloat x)
        = Inl (TremoloException ''Number of marks must be a number from 0 to 8''))
   \<and> numberOfMarks_setter parseInt tremolo PyNaN
        = Inl (TremoloException ''Number of marks must be a number from 0 to 8'')
   \<and> numberOfMarks_setter parseInt tremolo PyInfinity
        = Inl (OverflowError ''cannot convert float infinity to integer'')
   \<and> (parseInt str = None \<longrightarrow>
      numberOfMarks_setter parseInt tremolo (PyStr str)
        = Inl (TremoloException ''Number of marks must be a number from 0 to 8''))
   \<and> (\<forall>i. parseInt str = Some i \<longrightarrow>
      numberOfMarks_setter parseInt tremolo (PyStr str)
        = numberOfMarks_setter parseInt tremolo (PyInt i))
   \<and> (numbering \<notin> {Some ''alphabetical'', Some ''roman'', Some ''number'', None} \<longrightarrow>
      RehearsalMark_init numbering = Inl (ExpressionException numberingMessage))
   \<and> (arpeggioType \<notin> {''normal'', ''up'', ''down'', ''non-arpeggio''} \<longrightarrow>
      ArpeggioMarkSpanner_init arpeggioType
        = Inl (ValueError (arpeggioTypeMessage arpeggioType)))
   \<and> (arpeggioType \<noteq> [] \<and> arpeggioType \<notin> {''normal'', ''up'', ''down'', ''non-arpeggio''} \<longrightarrow>
      ArpeggioMark_init (Some arpeggioType)
        = Inl (ValueError (arpeggioTypeMessage arpeggioType)))
   \<and> ArpeggioMark_init (Some []) = Inr ''normal''
   \<and> ArpeggioMark_init None = Inr ''normal''
   \<and> (mordentFixedSize (mordentClass mordent) \<noteq> None \<longrightarrow>
      Mordent_accidentalName_setter mordent name
        = Inl (ExpressionException
                 (''Cannot set accidentalName of '' @ mordentClassName (mordentClass mordent))))
   \<and> (trillFixedSize (trillClass trill) \<noteq> None \<longrightarrow>
      Trill_accidentalName_setter trill name
        = Inl (ExpressionException
                 (''Cannot set accidentalName of '' @ trillClassName (trillClass trill))))
   \<and> (mordentFixedSize (mordentClass mordent) = None \<and> \<not> isValidAccidentalName name \<longrightarrow>
      Mordent_accidentalName_setter mordent name = Inr (mordent\<lparr>mordentAccidentalName := []\<rparr>))
   \<and> (trillFixedSize (trillClass trill) = None \<and> \<not> isValidAccidentalName name \<longrightarrow>
      Trill_accidentalName_setter trill name = Inr (trill\<lparr>trillAccidentalName := []\<rparr>))
   \<and> (\<not> isValidAccidentalName name \<longrightarrow>
      upperAccidentalName_setter turn name = turn\<lparr>upperAccidentalName := []\<rparr>
      \<and> lowerAccidentalName_setter turn name = turn\<lparr>lowerAccidentalName := []\<rparr>)"
proof -
  have marks: "num < 0 \<or> 8 < num \<longrightarrow>
      numberOfMarks_setter parseInt tremolo (PyInt num)
        = Inl (TremoloException ''Number of marks must be a number from 0 to 8'')"
    by (simp add: numberOfMarks_setter_def bindE_def)
  have marks': "0 \<le> num \<and> num \<le> 8 \<longrightarrow>
      numberOfMarks_setter parseInt tremolo (PyInt num)
        = Inr (tremolo\<lparr>numberOfMarks := num\<rparr>)"
    by (auto simp: numberOfMarks_setter_def bindE_def)
  have float: "numberOfMarks_setter parseInt tremolo (PyFloat x)
        = numberOfMarks_setter parseInt tremolo (PyInt (pyInt x))"
    by (simp add: numberOfMarks_setter_def)
  have inside: "- 1 < x \<and> x < 9 \<longrightarrow> 0 \<le> pyInt x \<and> pyInt x \<le> 8"
    by (auto simp: pyInt_def)
  have float': "- 1 < x \<and> x < 9 \<longrightarrow>
      numberOfMarks_setter parseInt tremolo (PyFloat x)
        = Inr (tremolo\<lparr>numberOfMarks := pyInt x\<rparr>)"
    using inside by (auto simp: numberOfMarks_setter_def bindE_def)
  have outside: "x \<le> - 1 \<or> 9 \<le> x \<longrightarrow> pyInt x < 0 \<or> 8 < pyInt x"
    by (auto simp: pyInt_def)
  have float'': "x \<le> - 1 \<or> 9 \<le> x \<longrightarrow>
      numberOfMarks_setter parseInt tremolo (PyFloat x)
        = Inl (TremoloException ''Number of marks must be a number from 0 to 8'')"
    using outside by (auto simp: numberOfMarks_setter_def bindE_def)
  have nan: "numberOfMarks_setter parseInt tremolo PyNaN
        = Inl (TremoloException ''Number of marks must be a number from 0 to 8'')"
    by (simp add: numberOfMarks_setter_def bindE_def)
  have inf: "numberOfMarks_setter parseInt tremolo PyInfinity
        = Inl (OverflowError ''cannot convert float infinity to integer'')"
    by (simp add: numberOfMarks_setter_def bindE_def)
  have str: "parseInt str = None \<longrightarrow>
      numberOfMarks_setter parseInt tremolo (PyStr str)
        = Inl (TremoloException ''Number of marks must be a number from 0 to 8'')"
    by (simp add: numberOfMarks_setter_def bindE_def)
  have str': "\<forall>i. parseInt str = Some i \<longrightarrow>
      numberOfMarks_setter parseInt tremolo (PyStr str)
        = numberOfMarks_setter parseInt tremolo (PyInt i)"
    by (simp add: numberOfMarks_setter_def)
  have numb: "numbering \<notin> {Some ''alphabetical'', Some ''roman'', Some ''number'', None} \<longrightarrow>
      RehearsalMark_init numbering = Inl (ExpressionException numberingMessage)"
    by (simp add: RehearsalMark_init_def)
  have span: "arpeggioType \<notin> {''normal'', ''up'', ''down'', ''non-arpeggio''} \<longrightarrow>
      ArpeggioMarkSpanner_init arpeggioType
        = Inl (ValueError (arpeggioTypeMessage arpeggioType))"
    by (simp add: ArpeggioMarkSpanner_init_def)
  have arp: "arpeggioType \<noteq> [] \<and> arpeggioType \<notin> {''normal'', ''up'', ''down'', ''non-arpeggio''} \<longrightarrow>
      ArpeggioMark_init (Some arpeggioType)
        = Inl (ValueError (arpeggioTypeMessage arpeggioType))"
    by (simp add: ArpeggioMark_init_def)
  have empty: "ArpeggioMark_init (Some []) = Inr ''normal''"
    "ArpeggioMark_init None = Inr ''normal''"
    by (simp_all add: ArpeggioMark_init_def)
  have fixedM: "mordentFixedSize (mordentClass mordent) \<noteq> None \<longrightarrow>
      Mordent_accidentalName_setter mordent name
        = Inl (ExpressionException
                 (''Cannot set accidentalName of '' @ mordentClassName (mordentClass mordent)))"
    by (simp add: Mordent_accidentalName_setter_def)
  have fixedT: "trillFixedSize (trillClass trill) \<noteq> None \<longrightarrow>
      Trill_accidentalName_setter trill name
        = Inl (ExpressionException
                 (''Cannot set accidentalName of '' @ trillClassName (trillClass trill)))"
    by (simp add: Trill_accidentalName_setter_def)
  have resetM: "mordentFixedSize (mordentClass mordent) = None \<and> \<not> isValidAccidentalName name \<longrightarrow>
      Mordent_accidentalName_setter mordent name = Inr (mordent\<lparr>mordentAccidentalName := []\<rparr>)"
    by (simp add: Mordent_accidentalName_setter_def)
  have resetT: "trillFixedSize (trillClass trill) = None \<and> \<not> isValidAccidentalName name \<longrightarrow>
      Trill_accidentalName_setter trill name = Inr (trill\<lparr>trillAccidentalName := []\<rparr>)"
    by (simp add: Trill_accidentalName_setter_def)
  have resetU: "\<not> isValidAccidentalName name \<longrightarrow>
      upperAccidentalName_setter turn name = turn\<lparr>upperAccidentalName := []\<rparr>
      \<and> lowerAccidentalName_setter turn name = turn\<lparr>lowerAccidentalName := []\<rparr>"
    by (simp add: upperAccidentalName_setter_def lowerAccidentalName_setter_def)
  from marks marks' float float' float'' nan inf str str' numb span arp empty
    fixedM fixedT resetM resetT resetU
  show ?thesis
    by blast
qed

lemma bogus_invalid: "\<not> isValidAccidentalName ''bogus''"
  by (simp add: isValidAccidentalName_def accidentalNameToAlter_def)

lemma pyInt_examples: "pyInt (89/10) = 8" "pyInt (19/2) = 9" "pyInt (- 1/2) = 0"
  by code_simp+

text \<open>The message of an arpeggio type that is refused quotes the type.\<close>

lemma sideways_message:
  \<open>arpeggioTypeMessage ''sideways''
     = ''Arpeggio type must be "normal", "up", "down", or "non-arpeggio", not 'sideways'.''\<close>
  by code_simp

theorem C6_configuration_errors_witness:
  "((9::int) < 0 \<or> 8 < (9::int))
   \<and> numberOfMarks_setter (\<lambda>str. None) Tremolo_init (PyInt 9)
       = Inl (TremoloException ''Number of marks must be a number from 0 to 8'')
   \<and> numberOfMarks_setter (\<lambda>str. None) Tremolo_init (PyInt (- 1))
       = Inl (TremoloException ''Number of marks must be a number from 0 to 8'')
   \<and> (0::int) \<le> 8 \<and> (8::int) \<le> 8
   \<and> numberOfMarks_setter (\<lambda>str. None) Tremolo_init (PyInt 8)
       = Inr (Tremolo_init\<lparr>numberOfMarks := 8\<rparr>)
   \<and> (- 1 :: rat) < 89/10 \<and> (89/10 :: rat) < 9
   \<and> numberOfMarks_setter (\<lambda>str. None) Tremolo_init (PyFloat (89/10))
       = Inr (Tremolo_init\<lparr>numberOfMarks := 8\<rparr>)
   \<and> (9 :: rat) \<le> 19/2
   \<and> numberOfMarks_setter (\<lambda>str. None) Tremolo_init (PyFloat (19/2))
       = Inl (TremoloException ''Number of marks must be a number from 0 to 8'')
   \<and> numberOfMarks_setter (\<lambda>str. None) Tremolo_init (PyStr ''many'')
       = Inl (TremoloException ''Number of marks must be a number from 0 to 8'')
   \<and> Some ''greek'' \<notin> {Some ''alphabetical'', Some ''roman'', Some ''number'', None}
   \<and> RehearsalMark_init (Some ''greek'') = Inl (ExpressionException numberingMessage)
   \<and> ''sideways'' \<noteq> [] \<and> ''sideways'' \<notin> {''normal'', ''up'', ''down'', ''non-arpeggio''}
   \<and> ArpeggioMark_init (Some ''sideways'')
       = Inl (ValueError (arpeggioTypeMessage ''sideways''))
   \<and> ArpeggioMarkSpanner_init ''sideways''
       = Inl (ValueError (arpeggioTypeMessage ''sideways''))
   \<and> mordentFixedSize (mordentClass (newMordent HalfStepMordentC)) \<noteq> None
   \<and> Mordent_accidentalName_setter (newMordent HalfStepMordentC) ''sharp''
       = Inl (ExpressionException ''Cannot set accidentalName of HalfStepMordent'')
   \<and> trillFixedSize (trillClass (newTrill\<lparr>trillClass := WholeStepTrillC\<rparr>)) \<noteq> None
   \<and> Trill_accidentalName_setter (newTrill\<lparr>trillClass := WholeStepTrillC\<rparr>) ''sharp''
       = Inl (ExpressionException ''Cannot set accidentalName of WholeStepTrill'')
   \<and> mordentFixedSize (mordentClass (newMordent MordentC)) = None
   \<and> trillFixedSize (trillClass newTrill) = None
   \<and> \<not> isValidAccidentalName ''bogus''
   \<and> Mordent_accidentalName_setter (newMordent MordentC) ''bogus''
       = Inr ((newMordent MordentC)\<lparr>mordentAccidentalName := []\<rparr>)
   \<and> Trill_accidentalName_setter newTrill ''bogus'' = Inr (newTrill\<lparr>trillAccidentalName := []\<rparr>)"
  using C6_configuration_errors
    [where num = 9 and tremolo = Tremolo_init and numbering = "Some ''greek''"
       and arpeggioType = "''sideways''" and mordent = "newMordent HalfStepMordentC"
       and trill = "newTrill\<lparr>trillClass := WholeStepTrillC\<rparr>" and name = "''sharp''"
       and parseInt = "\<lambda>str. None" and x = "89/10" and str = "''many''"]
    C6_configuration_errors
    [where num = "- 1" and tremolo = Tremolo_init and mordent = "newMordent MordentC"
       and trill = newTrill and name = "''bogus''" and parseInt = "\<lambda>str. None"
       and x = "19/2"]
    C6_configuration_errors
    [where num = 8 and tremolo = Tremolo_init and parseInt = "\<lambda>str. None" and x = "89/10"]
    bogus_invalid pyInt_examples
  by (simp add: newMordent_def newTrill_def)

text \<open>
  C6 as stated fails: the assignment of an invalid accidental name to a mordent or a trill
  that holds the name \<^verbatim>\<open>'sharp'\<close> does not raise and resets the stored name; the
  constructor drops an invalid name in the same way.
\<close>

theorem C6_invalid_accidental_counterexample:
  "\<not> isValidAccidentalName ''bogus''
   \<and> Mordent_accidentalName_setter
         ((newMordent MordentC)\<lparr>mordentAccidentalName := ''sharp''\<rparr>) ''bogus''
       = Inr (newMordent MordentC)
   \<and> Trill_accidentalName_setter (newTrill\<lparr>trillAccidentalName := ''sharp''\<rparr>) ''bogus''
       = Inr newTrill
   \<and> Mordent_init MordentC (Some ''bogus'') = Inr (newMordent MordentC)"
  by code_simp

text \<open>
  A mark count that is not an \<^verbatim>\<open>int\<close> is brought into the range without an error: the
  assignment of \<open>8.9\<close> stores 8, that of \<open>-0.5\<close> stores 0.
\<close>

lemma marks_truncated:
  "numberOfMarks_setter (\<lambda>str. None) Tremolo_init (PyFloat (89/10))
     = Inr (Tremolo_init\<lparr>numberOfMarks := 8\<rparr>)
   \<and> numberOfMarks_setter (\<lambda>str. None) Tremolo_init (PyFloat (- 1/2))
     = Inr (Tremolo_init\<lparr>numberOfMarks := 0\<rparr>)"
  by code_simp

text \<open>The sizes are computed from the key signature that is passed, whatever the context
  of the event holds.\<close>

lemma getSize_passed_keySig:
  "Mordent_getSize m (srcObj\<lparr>contextKeySig := c\<rparr>) (Some k) = Mordent_getSize m srcObj (Some k)"
  "Trill_getSize t (srcObj\<lparr>contextKeySig := c\<rparr>) (Some k) = Trill_getSize t srcObj (Some k)"
  "Turn_getSize u (srcObj\<lparr>contextKeySig := c\<rparr>) (Some k) which
     = Turn_getSize u srcObj (Some k) which"
  by (simp_all add: Mordent_getSize_def GeneralMordent_getSize_def Trill_getSize_def
        Turn_getSize_def keySigOrContext_def split: option.splits)

text \<open>
  C4. When a key signature is passed, \<^verbatim>\<open>getSize\<close>, \<^verbatim>\<open>resolveOrnamentalPitches\<close>
  and \<^verbatim>\<open>realize\<close> of the mordents and trills take the accidentals from it; the code
  of \<^verbatim>\<open>Turn.realize\<close> does not: the accidentals that it fills in on the first and
  third note come from the key signature of the event's context, also when a key signature
  is passed. A turn on a G4 that stands in a context of one sharp, realized with a key
  signature of no sharps: the lower interval, computed from the passed key signature, is a
  major second down, and the key signature that was passed leaves F natural, yet the third
  note is an F sharp. The mordent on the same note with the same arguments has the F
  natural.
\<close>

theorem C4_turn_realize_fills_from_context:
  "Turn_realize (Turn_init False NO_DELAY [] [])
     (noteOf (pitchOf StepG 4) 1 [] (Some 1)) (Some 0) False
   = Inr (([], None,
           [noteOf (pitchOf StepA 4) (1/4) [] (Some 1),
            noteOf (pitchOf StepG 4) (1/4) [] (Some 1),
            noteOf ((pitchOf StepF 4)\<lparr>accidental := Some (AccidentalOf 1)\<rparr>) (1/4) []
              (Some 1),
            noteOf (pitchOf StepG 4) (1/4) [] (Some 1)]),
          noteOf (pitchOf StepG 4) 1 [] (Some 1))
   \<and> Turn_getSize (Turn_init False NO_DELAY [] [])
         (noteOf (pitchOf StepG 4) 1 [] (Some 1)) (Some 0) ''lower''
       = Inr majorSecondDown
   \<and> accidentalByStep 0 StepF = None
   \<and> accidentalByStep 1 StepF = Some (AccidentalOf 1)
   \<and> Mordent_realize (newMordent MordentC)
         (noteOf (pitchOf StepG 4) 1 [] (Some 1)) (Some 0) False
       = Inr (([noteOf (pitchOf StepG 4) (1/8) [] (Some 1),
                noteOf (pitchOf StepF 4) (1/8) [] (Some 1)],
               Some (noteOf (pitchOf StepG 4) (3/4) [] (Some 1)), []),
              noteOf (pitchOf StepG 4) 1 [] (Some 1))"
  by code_simp

text \<open>
  C9. The driver is a total function: its loop is a recursion on \<^verbatim>\<open>loopBuster\<close>, which
  starts at 100 and falls by one with every iteration, and every \<^verbatim>\<open>realize\<close> that it
  calls is total (the loop of the tremolo has its termination proof). What it returns is
  what the specification of the driver describes: it raises what a \<^verbatim>\<open>realize\<close> raises,
  and it returns otherwise the pre-lists of the ornaments that were realized, in their
  order, then the remaining event if it is not \<^verbatim>\<open>None\<close>, then their post-lists, in
  their order; the ornaments are realized one after the other until none is left, until a
  main event is \<^verbatim>\<open>None\<close>, or until the ceiling of 100 iterations. The loop, started
  with any accumulators, returns them in front of what the specification collects. A
  remaining event carries the expressions beyond the ceiling, none when there were at most
  100. On an event without expressions the driver returns the event alone.
\<close>

theorem C9_realizeOrnaments_result:
  "realizeOrnaments trueDiv srcObj keySig = driverSpecResult trueDiv srcObj keySig
   \<and> (expressions srcObj \<noteq> [] \<longrightarrow>
        realizeLoop trueDiv n keySig srcObj pre0 post0
          = (case driverSpec trueDiv n keySig srcObj of
               Inl err \<Rightarrow> Inl err
             | Inr (preLists, remaining, postLists) \<Rightarrow>
                 Inr (pre0 @ preLists, remaining, post0 @ postLists)))
   \<and> (\<forall>preLists remaining postLists.
         driverSpec trueDiv n keySig srcObj = Inr (preLists, Some remaining, postLists)
         \<longrightarrow> expressions remaining = drop n (expressions srcObj))
   \<and> (expressions srcObj = [] \<longrightarrow> realizeOrnaments trueDiv srcObj keySig = Inr [srcObj])"
proof -
  have refines: "realizeOrnaments trueDiv srcObj keySig = driverSpecResult trueDiv srcObj keySig"
  proof (cases "expressions srcObj = []")
    case True
    then show ?thesis
      by (simp add: realizeOrnaments_def driverSpecResult_def driverSpec_no_expressions)
  next
    case False
    from realizeLoop_driverSpec [OF False, of trueDiv 100 keySig "[]" "[]"] False
    show ?thesis
      by (simp add: realizeOrnaments_def driverSpecResult_def bindE_def
            split: sum.splits prod.splits)
  qed
  have loop: "expressions srcObj \<noteq> [] \<longrightarrow>
        realizeLoop trueDiv n keySig srcObj pre0 post0
          = (case driverSpec trueDiv n keySig srcObj of
               Inl err \<Rightarrow> Inl err
             | Inr (preLists, remaining, postLists) \<Rightarrow>
                 Inr (pre0 @ preLists, remaining, post0 @ postLists))"
    using realizeLoop_driverSpec [of srcObj trueDiv n keySig pre0 post0] by blast
  have remaining: "\<forall>preLists remaining postLists.
         driverSpec trueDiv n keySig srcObj = Inr (preLists, Some remaining, postLists)
         \<longrightarrow> expressions remaining = drop n (expressions srcObj)"
    using driverSpec_remaining [of trueDiv n keySig srcObj] by blast
  have empty: "expressions srcObj = [] \<longrightarrow> realizeOrnaments trueDiv srcObj keySig = Inr [srcObj]"
    by (simp add: realizeOrnaments_def)
  from refines loop remaining empty show ?thesis
    by blast
qed

text \<open>
  A quarter note with a mordent, a fermata and two delayed turns: the mordent gives a
  pre-list, the fermata is dropped, each turn gives a post-list, and what is left of the
  note is an eighth note without expressions. The copies that a mordent makes keep the
  expressions of the note.
\<close>

lemma spec_on_ornaments:
  "driverSpec exactDiv 100 None (noteOf (pitchOf StepC 4) 1 ornaments None)
   = Inr ([noteOf (pitchOf StepC 4) (1/8) ornaments None,
           noteOf (pitchOf StepB 3) (1/8) ornaments None],
          Some (noteOf (pitchOf StepC 4) (1/8) [] None),
          [noteOf (pitchOf StepD 4) (1/12) [] None,
           noteOf (pitchOf StepC 4) (1/12) [] None,
           noteOf (pitchOf StepB 3) (1/12) [] None,
           noteOf (pitchOf StepC 4) (1/4) [] None,
           noteOf (pitchOf StepB 3) (1/32) [] None,
           noteOf (pitchOf StepC 4) (1/32) [] None,
           noteOf (pitchOf StepD 4) (1/32) [] None,
           noteOf (pitchOf StepC 4) (1/32) [] None])"
  by code_simp

text \<open>A trill consumes the event: the mordent that follows it is not realized.\<close>

lemma spec_on_trill_and_mordent:
  "driverSpec exactDiv 100 None
     (noteOf (pitchOf StepC 4) (1/4)
        [TrillExpr newTrill, MordentExpr (newMordent MordentC)] None)
   = Inr ([noteOf (pitchOf StepC 4) (1/8)
             [TrillExpr newTrill, MordentExpr (newMordent MordentC)] None,
           noteOf (pitchOf StepD 4) (1/8)
             [TrillExpr newTrill, MordentExpr (newMordent MordentC)] None],
          None, [])"
  by code_simp

text \<open>The ceiling: of 100 fermatas and a mordent, the fermatas are dropped and the mordent
  is left on the event, not realized.\<close>

lemma spec_at_ceiling:
  "driverSpec exactDiv 100 None
     (noteOf (pitchOf StepC 4) 1
        (replicate 100 (OtherExpr ''Fermata'') @ [MordentExpr (newMordent MordentC)]) None)
   = Inr ([], Some (noteOf (pitchOf StepC 4) 1 [MordentExpr (newMordent MordentC)] None), [])"
  by code_simp

theorem C9_realizeOrnaments_result_witness:
  "expressions (noteOf (pitchOf StepC 4) 1 ornaments None) \<noteq> []
   \<and> realizeOrnaments exactDiv (noteOf (pitchOf StepC 4) 1 ornaments None) None
     = Inr ([noteOf (pitchOf StepC 4) (1/8) ornaments None,
             noteOf (pitchOf StepB 3) (1/8) ornaments None]
            @ [noteOf (pitchOf StepC 4) (1/8) [] None]
            @ [noteOf (pitchOf StepD 4) (1/12) [] None,
               noteOf (pitchOf StepC 4) (1/12) [] None,
               noteOf (pitchOf StepB 3) (1/12) [] None,
               noteOf (pitchOf StepC 4) (1/4) [] None,
               noteOf (pitchOf StepB 3) (1/32) [] None,
               noteOf (pitchOf StepC 4) (1/32) [] None,
               noteOf (pitchOf StepD 4) (1/32) [] None,
               noteOf (pitchOf StepC 4) (1/32) [] None])
   \<and> realizeLoop exactDiv 100 None (noteOf (pitchOf StepC 4) 1 ornaments None)
       [noteOf (pitchOf StepE 4) 1 [] None] [noteOf (pitchOf StepF 4) 1 [] None]
     = Inr ([noteOf (pitchOf StepE 4) 1 [] None,
             noteOf (pitchOf StepC 4) (1/8) ornaments None,
             noteOf (pitchOf StepB 3) (1/8) ornaments None],
            Some (noteOf (pitchOf StepC 4) (1/8) [] None),
            [noteOf (pitchOf StepF 4) 1 [] None,
             noteOf (pitchOf StepD 4) (1/12) [] None,
             noteOf (pitchOf StepC 4) (1/12) [] None,
             noteOf (pitchOf StepB 3) (1/12) [] None,
             noteOf (pitchOf StepC 4) (1/4) [] None,
             noteOf (pitchOf StepB 3) (1/32) [] None,
             noteOf (pitchOf StepC 4) (1/32) [] None,
             noteOf (pitchOf StepD 4) (1/32) [] None,
             noteOf (pitchOf StepC 4) (1/32) [] None])
   \<and> expressions (noteOf (pitchOf StepC 4) (1/8) [] None)
       = drop 100 (expressions (noteOf (pitchOf StepC 4) 1 ornaments None))
   \<and> realizeOrnaments exactDiv
       (noteOf (pitchOf StepC 4) (1/4)
          [TrillExpr newTrill, MordentExpr (newMordent MordentC)] None) None
     = Inr [noteOf (pitchOf StepC 4) (1/8)
              [TrillExpr newTrill, MordentExpr (newMordent MordentC)] None,
            noteOf (pitchOf StepD 4) (1/8)
              [TrillExpr newTrill, MordentExpr (newMordent MordentC)] None]
   \<and> realizeOrnaments exactDiv
       (noteOf (pitchOf StepC 4) 1
          (replicate 100 (OtherExpr ''Fermata'') @ [MordentExpr (newMordent MordentC)]) None)
       None
     = Inr [noteOf (pitchOf StepC 4) 1 [MordentExpr (newMordent MordentC)] None]
   \<and> expressions (noteOf (pitchOf StepC 4) 1 [MordentExpr (newMordent MordentC)] None)
       = drop 100
           (expressions
              (noteOf (pitchOf StepC 4) 1
                 (replicate 100 (OtherExpr ''Fermata'')
                  @ [MordentExpr (newMordent MordentC)]) None))
   \<and> expressions (noteOf (pitchOf StepC 4) 1 [] None) = []
   \<and> realizeOrnaments exactDiv (noteOf (pitchOf StepC 4) 1 [] None) None
       = Inr [noteOf (pitchOf StepC 4) 1 [] None]"
  using C9_realizeOrnaments_result
    [where trueDiv = exactDiv and srcObj = "noteOf (pitchOf StepC 4) 1 ornaments None"
       and keySig = None and n = 100
       and ?pre0.0 = "[noteOf (pitchOf StepE 4) 1 [] None]"
       and ?post0.0 = "[noteOf (pitchOf StepF 4) 1 [] None]"]
    C9_realizeOrnaments_result
    [where trueDiv = exactDiv
       and srcObj = "noteOf (pitchOf StepC 4) (1/4)
                       [TrillExpr newTrill, MordentExpr (newMordent MordentC)] None"
       and keySig = None and n = 100]
    C9_realizeOrnaments_result
    [where trueDiv = exactDiv
       and srcObj = "noteOf (pitchOf StepC 4) 1
                       (replicate 100 (OtherExpr ''Fermata'')
                        @ [MordentExpr (newMordent MordentC)]) None"
       and keySig = None and n = 100]
    C9_realizeOrnaments_result
    [where trueDiv = exactDiv and srcObj = "noteOf (pitchOf StepC 4) 1 [] None"
       and keySig = None and n = 100]
    spec_on_ornaments spec_on_trill_and_mordent spec_at_ceiling
  by (simp add: driverSpecResult_def noteOf_def ornaments_def driverSpec_no_expressions)

end
